theory Spec2Isabelle
  imports Complex_Main "HOL-Library.AList"
begin

section \<open>Conventions\<close>

text \<open>
  Python floats are modelled as \<^typ>\<open>real\<close>: every comparison and every product of the
  source is kept, only the binary rounding of the machine is left out.  Wall-clock reads
  (\<^verbatim>\<open>time.time()\<close>), calendar dates, random draws and replies of the exchange are inputs
  of the functions that consume them.  An object mutated in place is a record that the
  function returns updated.
\<close>

section \<open>safe\_sleep\_manager.py\<close>

datatype SleepContext =
  API_RETRY | TRADING_CYCLE | ERROR_RECOVERY | CIRCUIT_BREAKER | DATA_POLLING | BALANCE_CHECK

record SleepLimits =
  min_sleep :: real
  max_sleep :: real
  default_sleep :: real
  max_total_wait :: real

record sleep_entry =
  se_duration :: real
  se_context :: SleepContext
  se_timestamp :: real

record SafeSleepManager =
  limits :: SleepLimits
  total_sleep_time :: real
  session_start_time :: real
  sleep_history :: "sleep_entry list"

text \<open>What one call of \<^verbatim>\<open>safe_sleep\<close> reads from outside: the draw of
  \<^verbatim>\<open>random.uniform(0.9, 1.1)\<close>, the clock when the entry is recorded, and the time
  that \<^verbatim>\<open>time.sleep(d)\<close> is measured to have taken for a request of \<open>d\<close> seconds.\<close>

record sleep_env =
  jitter_factor :: real
  sleep_now :: real
  slept :: "real \<Rightarrow> real"

definition SleepLimits_default :: SleepLimits where
  "SleepLimits_default =
     \<lparr>min_sleep = 0.1, max_sleep = 300, default_sleep = 0.5, max_total_wait = 3600\<rparr>"

definition SafeSleepManager_init :: "real \<Rightarrow> SleepLimits \<Rightarrow> SafeSleepManager" where
  "SafeSleepManager_init now l =
     \<lparr>limits = l, total_sleep_time = 0, session_start_time = now, sleep_history = []\<rparr>"

definition sanitize_duration :: "SleepLimits \<Rightarrow> real \<Rightarrow> SleepContext \<Rightarrow> real" where
  "sanitize_duration l duration ctx =
     (if duration \<le> 0 then min_sleep l
      else
        let max_allowed =
              (if ctx = CIRCUIT_BREAKER then min duration 600
               else if ctx = API_RETRY then min duration (max_sleep l)
               else min duration (min (max_sleep l) 30))
        in max (min_sleep l) (min max_allowed duration))"

definition safe_sleep ::
  "sleep_env \<Rightarrow> SafeSleepManager \<Rightarrow> real \<Rightarrow> SleepContext \<Rightarrow> bool \<Rightarrow> bool \<times> SafeSleepManager" where
  "safe_sleep env m duration ctx jitter =
     (let safe_duration = sanitize_duration (limits m) duration ctx in
      if total_sleep_time m + safe_duration > max_total_wait (limits m) then (False, m)
      else
        let safe_duration2 =
              (if jitter \<and> ctx \<noteq> CIRCUIT_BREAKER
               then max (min_sleep (limits m)) (safe_duration * jitter_factor env)
               else safe_duration);
            m1 = m\<lparr>sleep_history := sleep_history m @
                    [\<lparr>se_duration = safe_duration2, se_context = ctx,
                      se_timestamp = sleep_now env\<rparr>]\<rparr>;
            actual_duration = slept env safe_duration2
        in (True, m1\<lparr>total_sleep_time := total_sleep_time m1 + actual_duration\<rparr>))"

definition create_trading_sleep_manager :: "real \<Rightarrow> SafeSleepManager" where
  "create_trading_sleep_manager now =
     SafeSleepManager_init now
       \<lparr>min_sleep = 0.1, max_sleep = 30, default_sleep = 0.5, max_total_wait = 1800\<rparr>"

definition create_api_sleep_manager :: "real \<Rightarrow> SafeSleepManager" where
  "create_api_sleep_manager now =
     SafeSleepManager_init now
       \<lparr>min_sleep = 0.2, max_sleep = 300, default_sleep = 1, max_total_wait = 3600\<rparr>"

text \<open>A session: the calls made on one manager, in order.\<close>

record sleep_call =
  sc_env :: sleep_env
  sc_duration :: real
  sc_context :: SleepContext
  sc_jitter :: bool

fun run_sleeps :: "SafeSleepManager \<Rightarrow> sleep_call list \<Rightarrow> SafeSleepManager" where
  "run_sleeps m [] = m"
| "run_sleeps m (c # cs) =
     run_sleeps (snd (safe_sleep (sc_env c) m (sc_duration c) (sc_context c) (sc_jitter c))) cs"

text \<open>A call whose pause is exactly the sanitized duration: no jitter is applied (it is
  switched off, or the context is the circuit breaker's) and the measured pause equals the
  requested one.\<close>

definition exact_call :: "SleepLimits \<Rightarrow> sleep_call \<Rightarrow> bool" where
  "exact_call l c =
     (let d = sanitize_duration l (sc_duration c) (sc_context c)
      in (sc_jitter c = False \<or> sc_context c = CIRCUIT_BREAKER) \<and> slept (sc_env c) d = d)"

section \<open>api\_retry\_manager.py: CircuitBreaker\<close>

datatype cb_state = CLOSED | OPEN | HALF_OPEN

record CircuitBreaker =
  failure_threshold :: int
  recovery_timeout :: real
  cb_failure_count :: int
  cb_last_failure_time :: real
  state :: cb_state

definition CircuitBreaker_init :: "int \<Rightarrow> real \<Rightarrow> CircuitBreaker" where
  "CircuitBreaker_init threshold timeout =
     \<lparr>failure_threshold = threshold, recovery_timeout = timeout, cb_failure_count = 0,
      cb_last_failure_time = 0, state = CLOSED\<rparr>"

definition cb_record_failure :: "real \<Rightarrow> CircuitBreaker \<Rightarrow> CircuitBreaker" where
  "cb_record_failure now b =
     (let b1 = b\<lparr>cb_failure_count := cb_failure_count b + 1, cb_last_failure_time := now\<rparr>
      in if cb_failure_count b1 \<ge> failure_threshold b1 then b1\<lparr>state := OPEN\<rparr> else b1)"

definition cb_record_success :: "CircuitBreaker \<Rightarrow> CircuitBreaker" where
  "cb_record_success b =
     (if state b = HALF_OPEN then b\<lparr>state := CLOSED, cb_failure_count := 0\<rparr> else b)"

definition can_proceed :: "real \<Rightarrow> CircuitBreaker \<Rightarrow> bool \<times> CircuitBreaker" where
  "can_proceed now b =
     (if state b = CLOSED then (True, b)
      else if state b = OPEN then
        (if now - cb_last_failure_time b \<ge> recovery_timeout b
         then (True, b\<lparr>state := HALF_OPEN\<rparr>)
         else (False, b))
      else (True, b))"

text \<open>Every operation keeps this: a breaker that is not closed has reached its threshold.\<close>

definition cb_inv :: "CircuitBreaker \<Rightarrow> bool" where
  "cb_inv b = (state b = CLOSED \<or> failure_threshold b \<le> cb_failure_count b)"

section \<open>dash01\_refactored.py: OrderFailureTracker\<close>

record OrderFailureTracker =
  max_failures :: nat
  cooldown_seconds :: real
  failure_count :: nat
  last_failure_time :: real
  circuit_open :: bool
  consecutive_failures :: nat
  backoff_multiplier :: real
  max_backoff :: real
  failure_types :: "(string \<times> nat) list"

definition OrderFailureTracker_init :: "nat \<Rightarrow> real \<Rightarrow> OrderFailureTracker" where
  "OrderFailureTracker_init mf cd =
     \<lparr>max_failures = mf, cooldown_seconds = cd, failure_count = 0, last_failure_time = 0,
      circuit_open = False, consecutive_failures = 0, backoff_multiplier = 1.5,
      max_backoff = 300,
      failure_types = [(''network'', 0), (''api_limit'', 0), (''insufficient_balance'', 0),
                       (''validation'', 0), (''unknown'', 0)]\<rparr>"

definition record_failure :: "real \<Rightarrow> string \<Rightarrow> OrderFailureTracker \<Rightarrow> OrderFailureTracker" where
  "record_failure now failure_type t =
     (let t1 = t\<lparr>failure_count := failure_count t + 1,
                 consecutive_failures := consecutive_failures t + 1,
                 last_failure_time := now\<rparr>;
          t2 = (case map_of (failure_types t1) failure_type of
                  Some c \<Rightarrow> t1\<lparr>failure_types := AList.update failure_type (c + 1) (failure_types t1)\<rparr>
                | None \<Rightarrow> t1)
      in if failure_count t2 \<ge> max_failures t2 then t2\<lparr>circuit_open := True\<rparr> else t2)"

definition record_success :: "OrderFailureTracker \<Rightarrow> OrderFailureTracker" where
  "record_success t = t\<lparr>failure_count := 0, consecutive_failures := 0, circuit_open := False\<rparr>"

definition backoff_time :: "OrderFailureTracker \<Rightarrow> real" where
  "backoff_time t =
     min (cooldown_seconds t * backoff_multiplier t ^ (consecutive_failures t - 1))
         (max_backoff t)"

definition can_place_order :: "real \<Rightarrow> OrderFailureTracker \<Rightarrow> bool \<times> OrderFailureTracker" where
  "can_place_order now t =
     (if \<not> circuit_open t then
        (if consecutive_failures t > 0 \<and> now - last_failure_time t < backoff_time t
         then (False, t) else (True, t))
      else if now - last_failure_time t \<ge> cooldown_seconds t then
        (True, t\<lparr>circuit_open := False, failure_count := 0, consecutive_failures := 0\<rparr>)
      else (False, t))"


section \<open>api\_retry\_manager.py: the retry loop\<close>

datatype RetryableErrorType =
  NETWORK_ERROR | RATE_LIMIT | SERVER_ERROR | TIMEOUT | API_ERROR | UNKNOWN

record RetryConfig =
  max_attempts :: nat
  base_delay :: real
  max_delay :: real
  exponential_base :: real
  jitter :: bool
  rc_backoff_multiplier :: real

definition RetryConfig_default :: RetryConfig where
  "RetryConfig_default =
     \<lparr>max_attempts = 5, base_delay = 1, max_delay = 60, exponential_base = 2, jitter = True,
      rc_backoff_multiplier = 1.5\<rparr>"

text \<open>\<^verbatim>\<open>__post_init__\<close> raises ValueError unless this holds.\<close>

definition RetryConfig_post_init :: "RetryConfig \<Rightarrow> bool" where
  "RetryConfig_post_init c = (max_attempts c > 0 \<and> base_delay c > 0)"

record RetryAttempt =
  attempt_number :: nat
  error_type :: RetryableErrorType
  delay_seconds :: real
  timestamp :: real

record GateIORateLimitHandler =
  rl_last_request_time :: real
  min_interval :: real
  rate_limit_until :: real

definition GateIORateLimitHandler_init :: GateIORateLimitHandler where
  "GateIORateLimitHandler_init =
     \<lparr>rl_last_request_time = 0, min_interval = 0.1, rate_limit_until = 0\<rparr>"

text \<open>\<open>draw\<close> is the value of \<^verbatim>\<open>random.uniform(0, 30.0)\<close>.\<close>

definition handle_rate_limit ::
  "real \<Rightarrow> real \<Rightarrow> int option \<Rightarrow> GateIORateLimitHandler \<Rightarrow> real \<times> GateIORateLimitHandler" where
  "handle_rate_limit now draw retry_after h =
     (let delay = (case retry_after of
                     Some n \<Rightarrow> if n \<noteq> 0 then real_of_int n * 1.2 else 60 + draw
                   | None \<Rightarrow> 60 + draw)
      in (delay, h\<lparr>rate_limit_until := now + delay\<rparr>))"

definition can_make_request :: "real \<Rightarrow> GateIORateLimitHandler \<Rightarrow> bool \<times> GateIORateLimitHandler" where
  "can_make_request now h =
     (if now < rate_limit_until h then (False, h)
      else if now - rl_last_request_time h < min_interval h then (False, h)
      else (True, h\<lparr>rl_last_request_time := now\<rparr>))"

text \<open>\<open>draw\<close> is the value of \<^verbatim>\<open>random.uniform(-jitter_range, jitter_range)\<close>.\<close>

definition calculate_delay :: "real \<Rightarrow> nat \<Rightarrow> RetryConfig \<Rightarrow> RetryableErrorType \<Rightarrow> real" where
  "calculate_delay draw attempt config et =
     (if attempt \<le> 0 then 0
      else
        let delay = base_delay config * exponential_base config ^ (attempt - 1);
            delay = (if et = RATE_LIMIT then max delay 60 else delay);
            delay = delay * rc_backoff_multiplier config;
            delay = min delay (max_delay config);
            delay = (if jitter config then delay + draw else delay)
        in max 0.1 delay)"

text \<open>What the operation does when it is invoked: it returns a value, or raises an
  exception that the classifier maps to an error type and that may carry a Retry-After
  header.\<close>

datatype 'a op_outcome = Returns 'a | Raises RetryableErrorType "int option"

record 'a attempt_env =
  ae_now :: real
  ae_outcome :: "'a op_outcome"
  ae_draw :: real

text \<open>The events of one call, in order: an attempt number is either skipped because the
  local limiter refused, or the operation is invoked.  \<open>rs_attempts\<close> (the local list
  \<^verbatim>\<open>attempts\<close>) and \<open>rs_events\<close> belong to one call and start empty in each.\<close>

datatype retry_event = Skipped nat | Invoked nat

record retry_state =
  rs_handler :: GateIORateLimitHandler
  rs_breaker :: CircuitBreaker
  rs_attempts :: "RetryAttempt list"
  rs_events :: "retry_event list"
  rs_success :: nat
  rs_failure :: nat

datatype retry_error = BreakerOpen | AttemptsExhausted

fun retry_loop ::
  "RetryConfig \<Rightarrow> (nat \<Rightarrow> 'a attempt_env) \<Rightarrow> nat list \<Rightarrow> retry_state \<Rightarrow>
     (retry_error + 'a) \<times> retry_state" where
  "retry_loop cfg env [] s = (Inl AttemptsExhausted, s\<lparr>rs_failure := rs_failure s + 1\<rparr>)"
| "retry_loop cfg env (attempt # rest) s =
     (case can_make_request (ae_now (env attempt)) (rs_handler s) of
        (ok, h1) \<Rightarrow>
          if \<not> ok then
            retry_loop cfg env rest
              (s\<lparr>rs_handler := h1, rs_events := rs_events s @ [Skipped attempt]\<rparr>)
          else
            (case ae_outcome (env attempt) of
               Returns v \<Rightarrow>
                 (Inr v, s\<lparr>rs_handler := h1, rs_events := rs_events s @ [Invoked attempt],
                            rs_breaker := cb_record_success (rs_breaker s),
                            rs_success := rs_success s + 1\<rparr>)
             | Raises et retry_after \<Rightarrow>
                 (case (if et = RATE_LIMIT
                        then handle_rate_limit (ae_now (env attempt)) (ae_draw (env attempt))
                               retry_after h1
                        else (calculate_delay (ae_draw (env attempt)) attempt cfg et, h1)) of
                    (delay, h2) \<Rightarrow>
                      let s3 = s\<lparr>rs_handler := h2,
                                 rs_events := rs_events s @ [Invoked attempt],
                                 rs_attempts := rs_attempts s @
                                   [\<lparr>attempt_number = attempt, error_type = et,
                                     delay_seconds = delay,
                                     timestamp = ae_now (env attempt)\<rparr>]\<rparr>
                      in if attempt \<ge> max_attempts cfg then
                           (Inl AttemptsExhausted,
                            s3\<lparr>rs_breaker :=
                                  cb_record_failure (ae_now (env attempt)) (rs_breaker s3),
                                rs_failure := rs_failure s3 + 2\<rparr>)
                         else retry_loop cfg env rest s3)))"

definition execute_with_retry ::
  "RetryConfig \<Rightarrow> real \<Rightarrow> (nat \<Rightarrow> 'a attempt_env) \<Rightarrow> retry_state \<Rightarrow>
     (retry_error + 'a) \<times> retry_state" where
  "execute_with_retry cfg now env s =
     (case can_proceed now (rs_breaker s) of
        (ok, b1) \<Rightarrow>
          let s0 = s\<lparr>rs_breaker := b1, rs_attempts := [], rs_events := []\<rparr>
          in if \<not> ok then (Inl BreakerOpen, s0)
             else retry_loop cfg env [1 ..< max_attempts cfg + 1] s0)"

definition ApiRetryManager_init :: retry_state where
  "ApiRetryManager_init =
     \<lparr>rs_handler = GateIORateLimitHandler_init, rs_breaker = CircuitBreaker_init 5 300,
      rs_attempts = [], rs_events = [], rs_success = 0, rs_failure = 0\<rparr>"

fun is_invoked :: "retry_event \<Rightarrow> bool" where
  "is_invoked (Invoked n) = True"
| "is_invoked (Skipped n) = False"

fun is_skipped :: "retry_event \<Rightarrow> bool" where
  "is_skipped (Skipped n) = True"
| "is_skipped (Invoked n) = False"

definition invocations :: "retry_state \<Rightarrow> nat" where
  "invocations s = length (filter is_invoked (rs_events s))"

definition skips :: "retry_state \<Rightarrow> nat" where
  "skips s = length (filter is_skipped (rs_events s))"

section \<open>session\_manager.py\<close>

text \<open>The shared state is the JSON document of the file; taking the file lock is assumed to
  succeed (its failure raises TimeoutError before anything is read or written).  The
  \<^verbatim>\<open>bots\<close> dictionary is an association list in insertion order.\<close>

record BotStatus =
  pair :: string
  status :: string
  pid :: "int option"
  bs_start_time :: "real option"
  allocated_budget :: real
  bs_current_position :: "string option"
  trades_today :: int
  pnl_percent :: real
  last_action :: "string option"
  last_action_time :: "real option"
  errors_count :: int

record budget_info =
  total_usdt :: real
  allocated_usdt :: real
  available_usdt :: real

record SharedState =
  bots :: "(string \<times> BotStatus) list"
  global_budget :: budget_info
  system_status :: string

definition get_bot_status :: "SharedState \<Rightarrow> string \<Rightarrow> BotStatus option" where
  "get_bot_status st p = map_of (bots st) p"

definition set_bot_status :: "SharedState \<Rightarrow> BotStatus \<Rightarrow> SharedState" where
  "set_bot_status st b = st\<lparr>bots := AList.update (pair b) b (bots st)\<rparr>"

definition is_active :: "BotStatus \<Rightarrow> bool" where
  "is_active b = (status b \<in> set [''RUNNING'', ''STARTING''])"

text \<open>\<open>usdt_total\<close> is what \<^verbatim>\<open>get_total_usdt_balance\<close> reads from the exchange.\<close>

definition update_budget_info :: "real \<Rightarrow> SharedState \<Rightarrow> budget_info \<times> SharedState" where
  "update_budget_info usdt_total st =
     (let allocated = sum_list (map allocated_budget (filter is_active (map snd (bots st))));
          available = max 0 (usdt_total - allocated);
          info = \<lparr>total_usdt = usdt_total, allocated_usdt = allocated, available_usdt = available\<rparr>
      in (info, st\<lparr>global_budget := info\<rparr>))"

definition allocate_budget ::
  "real \<Rightarrow> SharedState \<Rightarrow> string \<Rightarrow> real \<Rightarrow> (bool \<times> real) \<times> SharedState" where
  "allocate_budget usdt_total st p requested_amount =
     (case update_budget_info usdt_total st of
        (info, st1) \<Rightarrow>
          let available = available_usdt info
          in if requested_amount \<le> available then ((True, requested_amount), st1)
             else if available > 10 then ((True, available * 0.9), st1)
             else ((False, 0), st1))"

definition deallocate_budget :: "real \<Rightarrow> SharedState \<Rightarrow> string \<Rightarrow> SharedState" where
  "deallocate_budget usdt_total st p =
     (let st1 = (case get_bot_status st p of
                   Some b \<Rightarrow> set_bot_status st (b\<lparr>allocated_budget := 0\<rparr>)
                 | None \<Rightarrow> st)
      in snd (update_budget_info usdt_total st1))"

record process =
  is_alive :: bool
  proc_pid :: int

record SessionManager =
  shared_state :: SharedState
  workers :: "(string \<times> process) list"
  worker_queues :: "(string \<times> string list) list"

definition cleanup_worker :: "string \<Rightarrow> SessionManager \<Rightarrow> SessionManager" where
  "cleanup_worker p m =
     m\<lparr>workers := AList.delete p (workers m), worker_queues := AList.delete p (worker_queues m)\<rparr>"

text \<open>The body of the loop of \<^verbatim>\<open>_check_workers_health\<close> for one entry of
  \<^verbatim>\<open>list(self.workers.items())\<close>.\<close>

definition health_step :: "string \<times> process \<Rightarrow> SessionManager \<Rightarrow> SessionManager" where
  "health_step w m =
     (if \<not> is_alive (snd w) then
        let st = (case get_bot_status (shared_state m) (fst w) of
                    Some b \<Rightarrow>
                      set_bot_status (shared_state m)
                        (b\<lparr>status := ''ERROR'', errors_count := errors_count b + 1\<rparr>)
                  | None \<Rightarrow> shared_state m)
        in cleanup_worker (fst w) (m\<lparr>shared_state := st\<rparr>)
      else m)"

definition check_workers_health :: "SessionManager \<Rightarrow> SessionManager" where
  "check_workers_health m = fold health_step (workers m) m"

text \<open>One round of \<^verbatim>\<open>_monitor_loop\<close>: the health check, then the budget update.\<close>

definition monitor_round :: "real \<Rightarrow> SessionManager \<Rightarrow> SessionManager" where
  "monitor_round usdt_total m =
     (let m1 = check_workers_health m
      in m1\<lparr>shared_state := snd (update_budget_info usdt_total (shared_state m1))\<rparr>)"

text \<open>\<^verbatim>\<open>stop_bot\<close>; terminating and joining the process changes nothing in the model.\<close>

definition stop_bot :: "real \<Rightarrow> string \<Rightarrow> SessionManager \<Rightarrow> bool \<times> SessionManager" where
  "stop_bot usdt_total p m =
     (if map_of (workers m) p = None then (False, m)
      else
        let st1 = deallocate_budget usdt_total (shared_state m) p;
            st2 = (case get_bot_status st1 p of
                     Some b \<Rightarrow> set_bot_status st1 (b\<lparr>status := ''STOPPED'', pid := None\<rparr>)
                   | None \<Rightarrow> st1)
        in (True, cleanup_worker p (m\<lparr>shared_state := st2\<rparr>)))"

text \<open>Every entry of \<^verbatim>\<open>bots\<close> is stored under the pair it names, as
  \<^verbatim>\<open>set_bot_status\<close> writes it.\<close>

definition keyed_by_pair :: "SharedState \<Rightarrow> bool" where
  "keyed_by_pair st = list_all (\<lambda>kb. pair (snd kb) = fst kb) (bots st)"

text \<open>A bot record as \<^verbatim>\<open>start_bot\<close> leaves it once the worker runs.\<close>

definition running_bot :: "string \<Rightarrow> int \<Rightarrow> real \<Rightarrow> real \<Rightarrow> BotStatus" where
  "running_bot p wpid now budget =
     \<lparr>pair = p, status = ''RUNNING'', pid = Some wpid, bs_start_time = Some now,
      allocated_budget = budget, bs_current_position = None, trades_today = 0,
      pnl_percent = 0, last_action = None, last_action_time = None, errors_count = 0\<rparr>"

text \<open>A supervisor with two running bots whose first worker has died.\<close>

definition two_bots_one_dead :: SessionManager where
  "two_bots_one_dead =
     \<lparr>shared_state =
        \<lparr>bots = [(''BTC_USDT'', running_bot ''BTC_USDT'' 4242 1000 50),
                 (''ETH_USDT'', running_bot ''ETH_USDT'' 4343 1001 30)],
         global_budget = \<lparr>total_usdt = 100, allocated_usdt = 80, available_usdt = 20\<rparr>,
         system_status = ''IDLE''\<rparr>,
      workers = [(''BTC_USDT'', \<lparr>is_alive = False, proc_pid = 4242\<rparr>),
                 (''ETH_USDT'', \<lparr>is_alive = True, proc_pid = 4343\<rparr>)],
      worker_queues = [(''BTC_USDT'', []), (''ETH_USDT'', [])]\<rparr>"

section \<open>dash01\_refactored.py: SmartCache and the caches of GateIOClient\<close>

record 'v SmartCache =
  cache :: "string \<rightharpoonup> 'v"
  cache_times :: "string \<rightharpoonup> real"

definition SmartCache_init :: "'v SmartCache" where
  "SmartCache_init = \<lparr>cache = Map.empty, cache_times = Map.empty\<rparr>"

text \<open>\<^verbatim>\<open>SmartCache.get\<close>: the value if present and not older than \<open>max_age_seconds\<close>; an
  expired entry is popped.\<close>

definition cache_get ::
  "real \<Rightarrow> 'v SmartCache \<Rightarrow> string \<Rightarrow> real \<Rightarrow> 'v option \<times> 'v SmartCache" where
  "cache_get now c key max_age_seconds =
     (case cache c key of
        None \<Rightarrow> (None, c)
      | Some v \<Rightarrow>
          let age = now - (case cache_times c key of Some ts \<Rightarrow> ts | None \<Rightarrow> 0)
          in if age > max_age_seconds
             then (None, c\<lparr>cache := (cache c)(key := None),
                           cache_times := (cache_times c)(key := None)\<rparr>)
             else (Some v, c))"

definition cache_set :: "real \<Rightarrow> 'v SmartCache \<Rightarrow> string \<Rightarrow> 'v \<Rightarrow> 'v SmartCache" where
  "cache_set now c key v =
     c\<lparr>cache := (cache c)(key \<mapsto> v), cache_times := (cache_times c)(key \<mapsto> now)\<rparr>"

definition is_expired :: "real \<Rightarrow> 'v SmartCache \<Rightarrow> real \<Rightarrow> string \<Rightarrow> bool" where
  "is_expired now c max_age_seconds key =
     (case cache_times c key of Some ts \<Rightarrow> now - ts > max_age_seconds | None \<Rightarrow> False)"

definition clear_expired :: "real \<Rightarrow> 'v SmartCache \<Rightarrow> real \<Rightarrow> 'v SmartCache" where
  "clear_expired now c max_age_seconds =
     c\<lparr>cache := (\<lambda>k. if is_expired now c max_age_seconds k then None else cache c k),
       cache_times := (\<lambda>k. if is_expired now c max_age_seconds k then None
                            else cache_times c k)\<rparr>"

text \<open>\<^verbatim>\<open>TradingConfig.CACHE_TIMEOUTS\<close>, \<^verbatim>\<open>DEFAULT_TAKER_FEE\<close> and
  \<^verbatim>\<open>GateIOLimits\<close>.\<close>

definition CACHE_TIMEOUT_orderbook :: real where "CACHE_TIMEOUT_orderbook = 5"
definition CACHE_TIMEOUT_stats :: real where "CACHE_TIMEOUT_stats = 60"
definition DEFAULT_TAKER_FEE :: real where "DEFAULT_TAKER_FEE = 0.002"
definition MIN_ORDER_VALUE_USDT :: real where "MIN_ORDER_VALUE_USDT = 5"
definition SAFETY_MARGIN :: real where "SAFETY_MARGIN = 1.15"

definition get_min_order_value_with_margin :: real where
  "get_min_order_value_with_margin = MIN_ORDER_VALUE_USDT * SAFETY_MARGIN"

record buy_trade =
  bt_price :: real
  bt_amount :: real
  bt_value_usdt :: real
  bt_timestamp :: int
  bt_fee :: real
  bt_fee_currency :: string
  bt_order_id :: string
  bt_fee_estimated :: bool

text \<open>A fill as \<^verbatim>\<open>/spot/my_trades\<close> reports it; \<open>rt_fee = None\<close> stands for a missing or
  empty fee field.\<close>

record raw_trade =
  rt_side :: string
  rt_price :: real
  rt_amount :: real
  rt_create_time_ms :: int
  rt_fee :: "real option"
  rt_fee_currency :: "string option"
  rt_order_id :: string

record account =
  currency :: string
  available :: real
  locked :: real

record GateIOClient =
  price_cache :: "real SmartCache"
  indicator_cache :: "real list SmartCache"
  stats_cache :: "buy_trade list SmartCache"
  last_cache_cleanup :: real

definition GateIOClient_init :: "real \<Rightarrow> GateIOClient" where
  "GateIOClient_init now =
     \<lparr>price_cache = SmartCache_init, indicator_cache = SmartCache_init,
      stats_cache = SmartCache_init, last_cache_cleanup = now\<rparr>"

definition cleanup_caches :: "real \<Rightarrow> GateIOClient \<Rightarrow> GateIOClient" where
  "cleanup_caches now c =
     (if now - last_cache_cleanup c > 60
      then c\<lparr>price_cache := clear_expired now (price_cache c) 5,
             indicator_cache := clear_expired now (indicator_cache c) 30,
             stats_cache := clear_expired now (stats_cache c) 120,
             last_cache_cleanup := now\<rparr>
      else c)"

text \<open>\<^verbatim>\<open>_request\<close>, as far as the client's own state goes: the periodic cache cleanup.  The
  reply of the exchange is an input of the caller.\<close>

definition request :: "real \<Rightarrow> GateIOClient \<Rightarrow> GateIOClient" where
  "request now c = cleanup_caches now c"

datatype order_result = OrderError | OrderReply "string option"

text \<open>\<^verbatim>\<open>place_spot_order\<close>: the parameter checks raise inside the \<^verbatim>\<open>try\<close> and give the
  error dictionary; otherwise the order is posted and the reply of the exchange (\<open>None\<close>
  for a failed request) is returned.\<close>

definition place_spot_order ::
  "real \<Rightarrow> string option \<Rightarrow> GateIOClient \<Rightarrow> string \<Rightarrow> string \<Rightarrow> real \<Rightarrow> real
     \<Rightarrow> order_result \<times> GateIOClient" where
  "place_spot_order now reply c pair_name side amount price =
     (if pair_name = [] \<or> side = [] \<or> amount = 0 \<or> price = 0 then (OrderError, c)
      else if amount \<le> 0 \<or> price \<le> 0 then (OrderError, c)
      else if amount * price < get_min_order_value_with_margin then (OrderError, c)
      else (OrderReply reply, request now c))"

text \<open>\<^verbatim>\<open>get_wallet_balance\<close>; \<open>accounts\<close> is the reply of \<^verbatim>\<open>/spot/accounts\<close> at the time
  of the call (\<open>None\<close> for a failed request).\<close>

definition get_wallet_balance ::
  "real \<Rightarrow> account list option \<Rightarrow> GateIOClient \<Rightarrow> string \<Rightarrow> real \<times> GateIOClient" where
  "get_wallet_balance now accounts c cur =
     (let cache_key = ''wallet_'' @ cur in
      case cache_get now (price_cache c) cache_key CACHE_TIMEOUT_orderbook of
        (Some cached_balance, pc) \<Rightarrow> (cached_balance, c\<lparr>price_cache := pc\<rparr>)
      | (None, pc) \<Rightarrow>
          let c1 = request now (c\<lparr>price_cache := pc\<rparr>)
          in (case accounts of
                None \<Rightarrow> (0, c1)
              | Some accs \<Rightarrow>
                  (case find (\<lambda>a. currency a = cur) accs of
                     None \<Rightarrow> (0, c1)
                   | Some a \<Rightarrow>
                       let tot = available a + locked a
                       in (tot,
                           c1\<lparr>price_cache := cache_set now (price_cache c1) cache_key tot\<rparr>))))"

definition to_buy_trade :: "raw_trade \<Rightarrow> buy_trade" where
  "to_buy_trade tr =
     (let fee_amount = (case rt_fee tr of Some f \<Rightarrow> f | None \<Rightarrow> 0);
          fee_currency_raw = (case rt_fee_currency tr of Some fc \<Rightarrow> fc | None \<Rightarrow> ''USDT'');
          estimate = (fee_amount = 0);
          fee_amount2 = (if estimate then rt_price tr * rt_amount tr * DEFAULT_TAKER_FEE
                         else fee_amount);
          fee_currency2 = (if estimate then ''USDT'' else fee_currency_raw)
      in \<lparr>bt_price = rt_price tr, bt_amount = rt_amount tr,
          bt_value_usdt = rt_price tr * rt_amount tr,
          bt_timestamp = rt_create_time_ms tr, bt_fee = fee_amount2,
          bt_fee_currency = fee_currency2, bt_order_id = rt_order_id tr,
          bt_fee_estimated = (case rt_fee tr of Some f \<Rightarrow> fee_amount2 = f | None \<Rightarrow> True)\<rparr>)"

text \<open>\<^verbatim>\<open>get_all_buy_trades\<close>; \<open>trades\<close> is the reply of \<^verbatim>\<open>/spot/my_trades\<close>.  The
  sort is stable and newest first.\<close>

definition get_all_buy_trades ::
  "real \<Rightarrow> raw_trade list option \<Rightarrow> GateIOClient \<Rightarrow> string
     \<Rightarrow> buy_trade list \<times> GateIOClient" where
  "get_all_buy_trades now trades c pair_name =
     (let cache_key = ''buy_trades_'' @ pair_name in
      case cache_get now (stats_cache c) cache_key CACHE_TIMEOUT_stats of
        (Some cached_trades, sc) \<Rightarrow> (cached_trades, c\<lparr>stats_cache := sc\<rparr>)
      | (None, sc) \<Rightarrow>
          let c1 = request now (c\<lparr>stats_cache := sc\<rparr>)
          in (case trades of
                None \<Rightarrow> ([], c1)
              | Some all_trades \<Rightarrow>
                  if all_trades = [] then ([], c1)
                  else
                    let buy_trades =
                          sort_key (\<lambda>b. - bt_timestamp b)
                            (map to_buy_trade (filter (\<lambda>tr. rt_side tr = ''buy'') all_trades))
                    in (buy_trades,
                        c1\<lparr>stats_cache :=
                             cache_set now (stats_cache c1) cache_key buy_trades\<rparr>)))"

text \<open>\<^verbatim>\<open>CursesDashboard._refresh_portfolio_data\<close>, the dashboard's step after a manual
  order: it pops the wallet entry and the buy-trades entry (only \<^verbatim>\<open>cache\<close>, the
  time stamps stay) before it reloads the portfolio.\<close>

definition refresh_portfolio_data :: "GateIOClient \<Rightarrow> string \<Rightarrow> GateIOClient" where
  "refresh_portfolio_data c pair_name =
     (let cur = takeWhile (\<lambda>ch. ch \<noteq> CHR ''_'') pair_name;
          pc = price_cache c;
          sc = stats_cache c
      in c\<lparr>price_cache := pc\<lparr>cache := (cache pc)(''wallet_'' @ cur := None)\<rparr>,
           stats_cache := sc\<lparr>cache := (cache sc)(''buy_trades_'' @ pair_name := None)\<rparr>\<rparr>)"

text \<open>The exchange before and after a buy of 0.001 BTC at 50000, as its two endpoints
  report it.\<close>

definition accounts_before :: "account list" where
  "accounts_before =
     [\<lparr>currency = ''USDT'', available = 100, locked = 0\<rparr>,
      \<lparr>currency = ''BTC'', available = 0, locked = 0\<rparr>]"

definition accounts_after :: "account list" where
  "accounts_after =
     [\<lparr>currency = ''USDT'', available = 50, locked = 0\<rparr>,
      \<lparr>currency = ''BTC'', available = 0.001, locked = 0\<rparr>]"

definition old_fill :: raw_trade where
  "old_fill = \<lparr>rt_side = ''buy'', rt_price = 40000, rt_amount = 0.002,
               rt_create_time_ms = 900000, rt_fee = Some 0.16, rt_fee_currency = Some ''USDT'',
               rt_order_id = ''41''\<rparr>"

definition new_fill :: raw_trade where
  "new_fill = \<lparr>rt_side = ''buy'', rt_price = 50000, rt_amount = 0.001,
               rt_create_time_ms = 1001000, rt_fee = Some 0.1, rt_fee_currency = Some ''USDT'',
               rt_order_id = ''42''\<rparr>"

section \<open>dash01\_refactored.py: SafetySystem and the indicator helpers\<close>

text \<open>\<open>start_time\<close> is a calendar date, counted in days; \<open>today\<close> is
  \<^verbatim>\<open>datetime.now().date()\<close> at the call.\<close>

record SafetySystem =
  max_daily_loss :: real
  min_win_rate :: real
  daily_pnl :: real
  trade_history :: "real list"
  start_time :: nat

definition SafetySystem_init :: "real \<Rightarrow> real \<Rightarrow> nat \<Rightarrow> SafetySystem" where
  "SafetySystem_init mdl mwr today =
     \<lparr>max_daily_loss = mdl, min_win_rate = mwr, daily_pnl = 0, trade_history = [],
      start_time = today\<rparr>"

definition win_rate :: "real list \<Rightarrow> real" where
  "win_rate h = real (length (filter (\<lambda>t. t > 0) h)) / real (length h)"

definition check_trade :: "nat \<Rightarrow> real \<Rightarrow> SafetySystem \<Rightarrow> bool \<times> SafetySystem" where
  "check_trade today pnl s =
     (let s1 = (if today \<noteq> start_time s
                then s\<lparr>daily_pnl := 0, trade_history := [], start_time := today\<rparr> else s);
          s2 = s1\<lparr>daily_pnl := daily_pnl s1 + pnl, trade_history := trade_history s1 @ [pnl]\<rparr>
      in if daily_pnl s2 < - max_daily_loss s2 then (False, s2)
         else if length (trade_history s2) \<ge> 5 \<and> win_rate (trade_history s2) < min_win_rate s2
         then (False, s2)
         else (True, s2))"

definition clamp100 :: "real \<Rightarrow> real" where
  "clamp100 x = max 0 (min 100 x)"

definition calculate_market_sentiment :: "real \<Rightarrow> real \<Rightarrow> real \<Rightarrow> real \<Rightarrow> real" where
  "calculate_market_sentiment rsi macd_histogram volume_change trend =
     (let rsi_score = clamp100 (if rsi \<noteq> 0 then rsi else 50);
          macd_score = clamp100 (50 + macd_histogram * 1000);
          volume_score = clamp100 (50 + volume_change * 200);
          trend_score = clamp100 (50 + trend * 100);
          score = 0.3 * rsi_score + 0.4 * macd_score + 0.2 * volume_score + 0.1 * trend_score
      in clamp100 score)"

definition calculate_position_size :: "real \<Rightarrow> real \<Rightarrow> real \<Rightarrow> real" where
  "calculate_position_size capital vol confidence =
     (let vol2 = (if vol \<le> 0 then 0.0001 else vol);
          kelly_fraction = confidence - (1 - confidence) / (vol2 * 100)
      in max 0.01 (min 0.2 kelly_fraction) * capital)"

text \<open>\<^verbatim>\<open>round(x, 8)\<close> and \<^verbatim>\<open>round_amount\<close> (Decimal quantize to eight places,
  ROUND\_DOWN, that is towards zero).\<close>

definition round8 :: "real \<Rightarrow> real" where
  "round8 x = real_of_int (round (x * 10 ^ 8)) / 10 ^ 8"

definition round_amount :: "real \<Rightarrow> real" where
  "round_amount qty =
     (if qty \<ge> 0 then real_of_int \<lfloor>qty * 10 ^ 8\<rfloor> / 10 ^ 8
      else real_of_int \<lceil>qty * 10 ^ 8\<rceil> / 10 ^ 8)"

section \<open>dash01\_refactored.py: scalp\_runner\<close>

datatype engine_state = WAITING_TO_BUY | POSITION_OPEN | WAITING_FOR_SELL

record dca_level =
  trigger_percent :: real
  multiplier :: real
  activated :: bool

text \<open>A call of \<^verbatim>\<open>self.client.place_spot_order\<close> made by the engine.\<close>

record placed_order =
  po_side :: string
  po_amount :: real
  po_price :: real

text \<open>The local variables of \<^verbatim>\<open>scalp_runner\<close> that live across iterations, the safety
  system, the dashboard's failure tracker and the orders submitted so far.
  \<open>currency_var\<close> is the local \<^verbatim>\<open>currency\<close>, \<open>None\<close> while it is unbound.\<close>

record runner =
  current_state :: engine_state
  position_entry_price :: real
  position_quantity :: real
  position_time :: real
  level1 :: dca_level
  level2 :: dca_level
  level3 :: dca_level
  dca_total_invested :: real
  dca_weighted_avg_price :: real
  trades_done :: nat
  safety :: SafetySystem
  failure_tracker :: OrderFailureTracker
  currency_var :: "string option"
  orders :: "placed_order list"

record params =
  usdt_per_trade :: real
  target_net_percent :: real
  max_trades :: nat
  timeout_minutes :: real
  p_max_daily_loss :: real
  p_min_win_rate :: real

definition scalp_defaults :: params where
  "scalp_defaults =
     \<lparr>usdt_per_trade = 100, target_net_percent = 0.9, max_trades = 200, timeout_minutes = 5,
      p_max_daily_loss = 0.15, p_min_win_rate = 0.30\<rparr>"

definition init_runner :: "params \<Rightarrow> nat \<Rightarrow> OrderFailureTracker \<Rightarrow> runner" where
  "init_runner P today trk =
     \<lparr>current_state = WAITING_TO_BUY, position_entry_price = 0, position_quantity = 0,
      position_time = 0,
      level1 = \<lparr>trigger_percent = - 2, multiplier = 2, activated = False\<rparr>,
      level2 = \<lparr>trigger_percent = - 5, multiplier = 3, activated = False\<rparr>,
      level3 = \<lparr>trigger_percent = - 10, multiplier = 0, activated = False\<rparr>,
      dca_total_invested = 0, dca_weighted_avg_price = 0, trades_done = 0,
      safety = SafetySystem_init (p_max_daily_loss P) (p_min_win_rate P) today,
      failure_tracker = trk, currency_var = None, orders = []\<rparr>"

datatype bal_read = Bal real | ReadError

record open_order =
  oo_side :: string
  oo_amount :: real
  oo_price :: real

text \<open>What one iteration of the main loop reads from outside: dates and clock, the
  replies of the client, and the three market indicators computed from the candles
  (volatility, trend, volume anomaly) with the session's aggressiveness.  \<open>order_reply1\<close>
  and \<open>order_reply2\<close> tell whether the exchange answers the first and the second order of
  the iteration with a non-empty reply that has no \<^verbatim>\<open>error\<close> key.  \<open>polls k\<close> is the
  clock at the \<open>k\<close>-th test of the fill-wait loop and the balance read that follows it.\<close>

record iter_env =
  guard_today :: nat
  tracker_now :: real
  check_today :: nat
  wallet_balance :: real
  open_orders_reply :: "open_order list"
  ticker :: "real option"
  book_buy :: "real option"
  book_sell :: "real option"
  ohlcv_len :: nat
  last_close :: real
  volatility :: real
  price_trend :: real
  volume_anomaly :: real
  aggressiveness :: real
  order_reply1 :: bool
  order_reply2 :: bool
  wait_start :: real
  polls :: "nat \<Rightarrow> real \<times> bal_read"
  clock :: real
  done_today :: nat

text \<open>Every attribute that \<^verbatim>\<open>class GateIOClient\<close> defines: its methods and the fields
  its methods assign.\<close>

definition GateIOClient_attributes :: "string list" where
  "GateIOClient_attributes =
     [''__init__'', ''_cleanup_caches'', ''_generate_sign'', ''_request'',
      ''_classify_api_error'', ''get_spot_accounts'', ''get_gt_fee_info'', ''get_gt_balance'',
      ''get_effective_fee_rate'', ''get_gt_status_summary'', ''get_ticker'',
      ''get_all_spot_pairs'', ''validate_pair_exists'', ''get_order_book'',
      ''get_order_status'', ''place_spot_order'', ''get_all_buy_trades'',
      ''get_wallet_balance'', ''calculate_real_portfolio_data'', ''_convert_fee_to_usdt'',
      ''get_best_book_price'',
      ''api_key'', ''secret_key'', ''rate_limit_enabled'', ''rate_limit_manager'',
      ''endpoint_classifier'', ''base_url'', ''monitoring'', ''session'', ''price_cache'',
      ''indicator_cache'', ''stats_cache'', ''api_stats'', ''last_cache_cleanup'',
      ''gt_fee_info'', ''gt_balance'', ''last_gt_info_update'',
      ''_endpoint_classifier_cache'']"

datatype 'a attr_call = Returned 'a | AttributeError

text \<open>\<^verbatim>\<open>self.client.list_spot_orders(pair, status='open')\<close>: the attribute lookup comes
  first; \<open>listed\<close> is what such a method would return.\<close>

definition client_list_spot_orders :: "open_order list \<Rightarrow> open_order list attr_call" where
  "client_list_spot_orders listed =
     (if ''list_spot_orders'' \<in> set GateIOClient_attributes then Returned listed
      else AttributeError)"

definition check_open_orders :: "open_order list \<Rightarrow> bool" where
  "check_open_orders listed =
     (case client_list_spot_orders listed of
        AttributeError \<Rightarrow> False
      | Returned open_orders \<Rightarrow>
          if open_orders \<noteq> [] \<and> length open_orders > 0
          then list_ex (\<lambda>order. oo_side order = ''sell'') open_orders
          else False)"

definition get_position_info :: "real \<Rightarrow> real" where
  "get_position_info bal = (if bal \<noteq> 0 \<and> bal > 0.0001 then bal else 0)"

definition calculate_strategy_pnl :: "real \<Rightarrow> real \<Rightarrow> real" where
  "calculate_strategy_pnl current_price entry_price =
     (if entry_price \<le> 0 \<or> current_price \<le> 0 then 0
      else ((current_price - entry_price) / entry_price) * 100)"

text \<open>\<^verbatim>\<open>result and 'error' not in result\<close> for a call of \<open>place_spot_order\<close>.\<close>

definition order_succeeds :: "real \<Rightarrow> real \<Rightarrow> bool \<Rightarrow> bool" where
  "order_succeeds amount price reply_ok =
     (case fst (place_spot_order 0 (if reply_ok then Some ''id'' else None)
                  (GateIOClient_init 0) ''pair'' ''side'' amount price) of
        OrderError \<Rightarrow> False
      | OrderReply reply \<Rightarrow> reply \<noteq> None)"

definition submit :: "string \<Rightarrow> real \<Rightarrow> real \<Rightarrow> runner \<Rightarrow> runner" where
  "submit sd amount price r =
     r\<lparr>orders := orders r @ [\<lparr>po_side = sd, po_amount = amount, po_price = price\<rparr>]\<rparr>"

definition reset_dca :: "runner \<Rightarrow> runner" where
  "reset_dca r =
     r\<lparr>level1 := (level1 r)\<lparr>activated := False\<rparr>,
       level2 := (level2 r)\<lparr>activated := False\<rparr>,
       level3 := (level3 r)\<lparr>activated := False\<rparr>\<rparr>"

text \<open>\<^verbatim>\<open>x or y\<close> for an optional float: the fallback is taken for None and for 0.0.\<close>

definition or_else :: "real option \<Rightarrow> real \<Rightarrow> real" where
  "or_else x y = (case x of Some v \<Rightarrow> if v \<noteq> 0 then v else y | None \<Rightarrow> y)"

datatype exit = Normal | Raised

text \<open>Branch \<^verbatim>\<open>WAITING_FOR_SELL\<close>.\<close>

definition wfs_branch :: "iter_env \<Rightarrow> runner \<Rightarrow> real \<Rightarrow> runner" where
  "wfs_branch e r current_position =
     (let has_sell_orders = check_open_orders (open_orders_reply e) in
      if current_position = 0 then
        let profit_pnl =
              (if position_entry_price r > 0
               then (or_else (ticker e) (position_entry_price r) - position_entry_price r)
                      / position_entry_price r * 100
               else 0)
        in r\<lparr>safety := snd (check_trade (done_today e) (profit_pnl / 100) (safety r)),
             current_state := WAITING_TO_BUY, trades_done := trades_done r + 1,
             position_entry_price := 0, position_quantity := 0\<rparr>
      else if \<not> has_sell_orders then r\<lparr>current_state := POSITION_OPEN\<rparr>
      else r)"

definition max_balance_checks :: nat where
  "max_balance_checks = 25"

text \<open>The result of the fill-wait loop: it ends with the flag \<^verbatim>\<open>executed\<close>, or an
  exception leaves it.\<close>

datatype poll_result = PollExit bool runner | PollRaised runner

text \<open>The fill-wait loop after an accepted buy.  \<open>attempts\<close> is
  \<^verbatim>\<open>balance_check_attempts\<close>, \<open>bal\<close> the local \<^verbatim>\<open>bal\<close> (None while unbound).  A
  sufficient balance sets \<^verbatim>\<open>executed\<close> and breaks.  The statements that record the
  position stand in the \<^verbatim>\<open>except\<close> handler, after its early \<^verbatim>\<open>break\<close>: they run
  only when the balance read raised, and their log line formats \<^verbatim>\<open>bal\<close>.\<close>

function poll_loop ::
  "(nat \<Rightarrow> real \<times> bal_read) \<Rightarrow> real \<Rightarrow> real \<Rightarrow> real \<Rightarrow> real \<Rightarrow> nat \<Rightarrow> real option
     \<Rightarrow> runner \<Rightarrow> poll_result" where
  "poll_loop ps wait_until qty optimal_buy_price usdt attempts bal r =
     (if fst (ps attempts) < wait_until \<and> attempts < max_balance_checks then
        (case snd (ps attempts) of
           Bal b \<Rightarrow>
             if b \<noteq> 0 \<and> b \<ge> qty * 0.999 then PollExit True r
             else poll_loop ps wait_until qty optimal_buy_price usdt (attempts + 1) (Some b) r
         | ReadError \<Rightarrow>
             if attempts + 1 \<ge> max_balance_checks then PollExit False r
             else
               (case bal of
                  None \<Rightarrow> PollRaised r
                | Some b \<Rightarrow>
                    PollExit False
                      ((reset_dca r)
                         \<lparr>current_state := POSITION_OPEN,
                          position_entry_price := optimal_buy_price,
                          position_quantity := b,
                          position_time := fst (ps attempts),
                          dca_total_invested := usdt,
                          dca_weighted_avg_price := optimal_buy_price\<rparr>)))
      else PollExit False r)"
  by pat_completeness auto
termination
  by (relation "measure (\<lambda>(ps, wait_until, qty, price, usdt, attempts, bal, r).
        max_balance_checks - attempts)") auto

text \<open>The end of branch \<^verbatim>\<open>WAITING_TO_BUY\<close>, once price and quantity are known:
  \<^verbatim>\<open>currency\<close> is bound, the buy is submitted, and an accepted order is followed by
  the fill-wait loop; a confirmed fill sets the state to \<open>POSITION_OPEN\<close>.\<close>

definition buy_and_wait :: "params \<Rightarrow> iter_env \<Rightarrow> runner \<Rightarrow> real \<Rightarrow> real \<Rightarrow> exit \<times> runner" where
  "buy_and_wait P e r qty optimal_buy_price =
     (let r1 = submit ''buy'' qty optimal_buy_price (r\<lparr>currency_var := Some ''BASE''\<rparr>)
      in if \<not> order_succeeds qty optimal_buy_price (order_reply1 e) then (Normal, r1)
         else
           (case poll_loop (polls e) (wait_start e + 5) qty optimal_buy_price
                   (usdt_per_trade P) 0 None r1 of
              PollRaised r2 \<Rightarrow> (Raised, r2)
            | PollExit executed r2 \<Rightarrow>
                if \<not> executed then (Normal, r2)
                else (Normal, r2\<lparr>current_state := POSITION_OPEN\<rparr>)))"

text \<open>Branch \<^verbatim>\<open>WAITING_TO_BUY\<close>.\<close>

definition wtb_branch :: "params \<Rightarrow> iter_env \<Rightarrow> runner \<Rightarrow> real \<Rightarrow> exit \<times> runner" where
  "wtb_branch P e r current_position =
     (if current_position > 0 then
        (let current_market_price = (case ticker e of None \<Rightarrow> book_buy e | Some p \<Rightarrow> Some p)
         in case current_market_price of
              None \<Rightarrow> (Normal, r)
            | Some p \<Rightarrow>
                if p \<noteq> 0 \<and> p > 0 then
                  (Normal,
                   (reset_dca r)
                     \<lparr>position_entry_price := p, position_quantity := current_position,
                      position_time := clock e,
                      dca_total_invested := current_position * p,
                      dca_weighted_avg_price := p,
                      current_state := POSITION_OPEN\<rparr>)
                else (Normal, r))
      else if ohlcv_len e = 0 \<or> ohlcv_len e < 5 then (Normal, r)
      else
        let current_price = last_close e;
            rsi = 50 + price_trend e * 100;
            macd_histogram = price_trend e * 0.01;
            volume_change = volume_anomaly e * 0.1;
            sentiment =
              calculate_market_sentiment rsi macd_histogram volume_change (price_trend e);
            confidence = sentiment / 100;
            base_position_size =
              calculate_position_size (usdt_per_trade P) (volatility e) confidence;
            adaptive1 = base_position_size * aggressiveness e;
            min_required = get_min_order_value_with_margin;
            adaptive2 = (if adaptive1 < min_required then min_required else adaptive1);
            adaptive_position_size =
              (if adaptive2 > usdt_per_trade P then usdt_per_trade P else adaptive2);
            entry_conditions = (sentiment > 40 \<and> volatility e > 0.0001 \<and> confidence > 0.2)
        in if \<not> entry_conditions then (Normal, r)
           else
             let best_ask = (case book_buy e of None \<Rightarrow> current_price * 1.0005 | Some p \<Rightarrow> p);
                 aggressive_buy_price = best_ask * 1.002;
                 optimal_buy_price = round8 (max (1 / 10 ^ 8) aggressive_buy_price);
                 qty = round_amount (adaptive_position_size / optimal_buy_price)
             in if qty \<le> 0 then (Normal, r)
                else buy_and_wait P e r qty optimal_buy_price)"

text \<open>One rung of the DCA ladder (levels 1 and 2 have the same code): buy
  \<open>usdt_per_trade * multiplier\<close> at the current price plus 0.2 percent; on success the entry
  price becomes the volume-weighted average.\<close>

definition dca_buy ::
  "params \<Rightarrow> iter_env \<Rightarrow> runner \<Rightarrow> real \<Rightarrow> real \<Rightarrow> (runner \<Rightarrow> runner) \<Rightarrow> exit \<times> runner" where
  "dca_buy P e r current_price mult activate =
     (let dca_buy_amount = usdt_per_trade P * mult;
          dca_quantity = dca_buy_amount / current_price;
          r1 = submit ''buy'' dca_quantity (current_price * 1.002) r
      in if order_succeeds dca_quantity (current_price * 1.002) (order_reply1 e) then
           let total_quantity = position_quantity r + dca_quantity;
               total_invested =
                 position_quantity r * position_entry_price r + dca_quantity * current_price
           in if total_quantity = 0 then (Raised, r1)
              else (Normal,
                    activate
                      (r1\<lparr>dca_weighted_avg_price := total_invested / total_quantity,
                          dca_total_invested := dca_total_invested r + dca_buy_amount,
                          position_quantity := total_quantity,
                          position_entry_price := total_invested / total_quantity\<rparr>))
         else (Normal,
               r1\<lparr>failure_tracker :=
                    record_failure (clock e) ''unknown'' (failure_tracker r1)\<rparr>))"

text \<open>The \<^verbatim>\<open>if/elif/elif\<close> chain on a losing position: level 1, else level 2, else
  the stop loss.\<close>

definition dca_chain :: "params \<Rightarrow> iter_env \<Rightarrow> runner \<Rightarrow> real \<Rightarrow> real \<Rightarrow> exit \<times> runner" where
  "dca_chain P e r current_price current_loss_percent =
     (if current_loss_percent \<le> trigger_percent (level1 r) \<and> \<not> activated (level1 r) then
        dca_buy P e r current_price (multiplier (level1 r))
          (\<lambda>x. x\<lparr>level1 := (level1 x)\<lparr>activated := True\<rparr>\<rparr>)
      else if current_loss_percent \<le> trigger_percent (level2 r) \<and> \<not> activated (level2 r)
              \<and> activated (level1 r) then
        dca_buy P e r current_price (multiplier (level2 r))
          (\<lambda>x. x\<lparr>level2 := (level2 x)\<lparr>activated := True\<rparr>\<rparr>)
      else if current_loss_percent \<le> trigger_percent (level3 r) \<and> \<not> activated (level3 r) then
        (let emergency_sell_price =
               (case book_sell e of None \<Rightarrow> current_price * 0.995 | Some p \<Rightarrow> p);
             r1 = submit ''sell'' (position_quantity r) emergency_sell_price r
         in if order_succeeds (position_quantity r) emergency_sell_price (order_reply1 e)
            then (Normal,
                  r1\<lparr>level3 := (level3 r1)\<lparr>activated := True\<rparr>,
                     current_state := WAITING_FOR_SELL\<rparr>)
            else (Normal,
                  r1\<lparr>failure_tracker :=
                       record_failure (clock e) ''unknown'' (failure_tracker r1)\<rparr>))
      else (Normal, r))"

text \<open>The forced sale after the position timeout.\<close>

definition timeout_sell :: "params \<Rightarrow> iter_env \<Rightarrow> runner \<Rightarrow> real \<Rightarrow> runner" where
  "timeout_sell P e r current_price =
     (let time_in_position = clock e - position_time r;
          timeout_seconds = timeout_minutes P * 60
      in if timeout_minutes P > 0 \<and> time_in_position > timeout_seconds then
           let optimal_sell_price = round8 (or_else (book_sell e) (current_price * 0.999));
               r1 = submit ''sell'' (position_quantity r) optimal_sell_price r
           in if order_succeeds (position_quantity r) optimal_sell_price (order_reply2 e)
              then r1\<lparr>current_state := WAITING_FOR_SELL\<rparr>
              else r1
         else r)"

text \<open>Branch \<^verbatim>\<open>POSITION_OPEN\<close>.\<close>

definition po_branch :: "params \<Rightarrow> iter_env \<Rightarrow> runner \<Rightarrow> real \<Rightarrow> exit \<times> runner" where
  "po_branch P e r current_position =
     (if current_position = 0 then
        (Normal, r\<lparr>current_state := WAITING_TO_BUY, trades_done := trades_done r + 1\<rparr>)
      else if position_entry_price r > 0 then
        let effective_entry_price =
              (if activated (level1 r) \<or> activated (level2 r) then dca_weighted_avg_price r
               else position_entry_price r);
            target_price = effective_entry_price * (1 + target_net_percent P / 100);
            current_price = or_else (ticker e) (position_entry_price r)
        in if current_price \<ge> target_price then
             let optimal_sell_price =
                   round8 (case book_sell e of None \<Rightarrow> current_price * 0.999 | Some p \<Rightarrow> p)
             in if currency_var r = None then (Raised, r)
                else
                  let r1 = submit ''sell'' (position_quantity r) optimal_sell_price r
                  in if order_succeeds (position_quantity r) optimal_sell_price
                          (order_reply1 e)
                     then (Normal,
                           r1\<lparr>failure_tracker := record_success (failure_tracker r1),
                              current_state := WAITING_FOR_SELL\<rparr>)
                     else (Normal,
                           r1\<lparr>failure_tracker :=
                                record_failure (clock e) ''unknown'' (failure_tracker r1)\<rparr>)
           else
             let strategy_pnl = calculate_strategy_pnl current_price (position_entry_price r)
             in (case (if strategy_pnl < 0 then dca_chain P e r current_price strategy_pnl
                       else (Normal, r)) of
                   (Raised, r1) \<Rightarrow> (Raised, r1)
                 | (Normal, r1) \<Rightarrow> (Normal, timeout_sell P e r1 current_price))
      else (Normal, r))"

text \<open>The body of the \<^verbatim>\<open>try\<close>: the state machine.  An exception is caught by the
  loop's \<^verbatim>\<open>except Exception\<close>, which sleeps and lets the loop go on.\<close>

definition state_machine :: "params \<Rightarrow> iter_env \<Rightarrow> runner \<Rightarrow> exit \<times> runner" where
  "state_machine P e r =
     (let current_position = get_position_info (wallet_balance e) in
      if current_state r = WAITING_FOR_SELL then (Normal, wfs_branch e r current_position)
      else if current_state r = WAITING_TO_BUY then wtb_branch P e r current_position
      else po_branch P e r current_position)"

datatype flow = Continue | Break

text \<open>One iteration of the \<^verbatim>\<open>while\<close> body, after the counter is incremented: the
  circuit-breaker test (which only sleeps and continues when it fails), the safety check
  and the state machine.\<close>

definition loop_iteration :: "params \<Rightarrow> iter_env \<Rightarrow> runner \<Rightarrow> flow \<times> runner" where
  "loop_iteration P e r =
     (case can_place_order (tracker_now e) (failure_tracker r) of
        (ok, t1) \<Rightarrow>
          if \<not> ok then (Continue, r\<lparr>failure_tracker := t1\<rparr>)
          else
            (case check_trade (check_today e) 0 (safety r) of
               (safety_check, s1) \<Rightarrow>
                 if \<not> safety_check then (Break, r\<lparr>failure_tracker := t1, safety := s1\<rparr>)
                 else (Continue,
                       snd (state_machine P e
                              (r\<lparr>failure_tracker := t1, safety := s1\<rparr>)))))"

definition max_main_loop_iterations :: nat where
  "max_main_loop_iterations = 10000"

text \<open>The main loop.  \<open>n\<close> is \<^verbatim>\<open>main_loop_iterations\<close>; \<open>env n\<close> is what iteration
  \<open>n\<close> (counted from 0) reads.  The guard evaluates left to right: the safety system is
  asked, and records a sample, only while \<open>trades_done < max_trades\<close>.  The result is the
  final counter and state.\<close>

function scalp_loop :: "params \<Rightarrow> (nat \<Rightarrow> iter_env) \<Rightarrow> nat \<Rightarrow> runner \<Rightarrow> nat \<times> runner" where
  "scalp_loop P env n r =
     (if trades_done r < max_trades P then
        (if fst (check_trade (guard_today (env n)) 0 (safety r))
            \<and> n < max_main_loop_iterations then
           (if fst (loop_iteration P (env n)
                      (r\<lparr>safety := snd (check_trade (guard_today (env n)) 0 (safety r))\<rparr>))
               = Break
            then (Suc n,
                  snd (loop_iteration P (env n)
                         (r\<lparr>safety := snd (check_trade (guard_today (env n)) 0 (safety r))\<rparr>)))
            else scalp_loop P env (Suc n)
                   (snd (loop_iteration P (env n)
                           (r\<lparr>safety :=
                                snd (check_trade (guard_today (env n)) 0 (safety r))\<rparr>))))
         else (n, r\<lparr>safety := snd (check_trade (guard_today (env n)) 0 (safety r))\<rparr>))
      else (n, r))"
  by pat_completeness auto
termination
  by (relation "measure (\<lambda>(P, env, n, r). max_main_loop_iterations - n)") auto

text \<open>\<^verbatim>\<open>scalp_runner\<close> from its first line: a new safety system, the state machine in
  \<open>WAITING_TO_BUY\<close>, and the loop.\<close>

definition scalp_runner ::
  "params \<Rightarrow> nat \<Rightarrow> OrderFailureTracker \<Rightarrow> (nat \<Rightarrow> iter_env) \<Rightarrow> nat \<times> runner" where
  "scalp_runner P today trk env = scalp_loop P env 0 (init_runner P today trk)"

text \<open>A calm market used to run the engine: price 100 on ticker and best ask, best bid
  99.9, twenty candles with a mild up-trend, every order accepted, and a balance of one
  unit of the base asset seen by every poll of the fill-wait loop.\<close>

definition calm_env :: iter_env where
  "calm_env =
     \<lparr>guard_today = 0, tracker_now = 1000, check_today = 0, wallet_balance = 0,
      open_orders_reply = [], ticker = Some 100, book_buy = Some 100, book_sell = Some 99.9,
      ohlcv_len = 20, last_close = 100, volatility = 0.05, price_trend = 0.1,
      volume_anomaly = 0, aggressiveness = 1, order_reply1 = True, order_reply2 = True,
      wait_start = 1000, polls = (\<lambda>k. (1000 + real k * 0.2, Bal 1)), clock = 1000,
      done_today = 0\<rparr>"

text \<open>A run in which every iteration sees the calm market.\<close>

definition calm_run :: "nat \<Rightarrow> iter_env" where
  "calm_run n = calm_env"

text \<open>The dashboard's failure tracker one second after its first failed order, and a run
  whose iterations are ten seconds apart (the pause of an iteration that the tracker
  blocks).\<close>

definition failed_once :: OrderFailureTracker where
  "failed_once = record_failure 999 ''unknown'' (OrderFailureTracker_init 5 60)"

definition backoff_run :: "nat \<Rightarrow> iter_env" where
  "backoff_run n = calm_env\<lparr>tracker_now := 1000 + 10 * real n\<rparr>"

text \<open>A position of one unit entered at 100, as the engine holds it after a fill.\<close>

definition open_position :: "params \<Rightarrow> runner" where
  "open_position P =
     (init_runner P 0 (OrderFailureTracker_init 5 60))
       \<lparr>current_state := POSITION_OPEN, position_entry_price := 100, position_quantity := 1,
        position_time := 1000, dca_total_invested := 100, dca_weighted_avg_price := 100,
        currency_var := Some ''BASE''\<rparr>"

text \<open>The engine state that the fill-wait loop leaves, however it ends.\<close>

fun poll_runner :: "poll_result \<Rightarrow> runner" where
  "poll_runner (PollExit executed r) = r"
| "poll_runner (PollRaised r) = r"

text \<open>A safety system of the current day whose history is \<open>k\<close> samples, all of them 0.\<close>

definition zeros :: "nat \<Rightarrow> nat \<Rightarrow> SafetySystem \<Rightarrow> bool" where
  "zeros today k s =
     (start_time s = today \<and> daily_pnl s = 0 \<and> trade_history s = replicate k 0)"

text \<open>The calendar day does not change during the run.\<close>

definition same_day :: "nat \<Rightarrow> (nat \<Rightarrow> iter_env) \<Rightarrow> bool" where
  "same_day today env =
     (list_all (\<lambda>n. guard_today (env n) = today \<and> check_today (env n) = today) [0 ..< 5])"

text \<open>The second state keeps what the loop guard reads of the first (safety system,
  failure tracker, number of trades) and is in the same engine state or in
  \<open>POSITION_OPEN\<close>.\<close>

definition keeps :: "runner \<Rightarrow> runner \<Rightarrow> bool" where
  "keeps r r2 =
     (safety r2 = safety r \<and> failure_tracker r2 = failure_tracker r
      \<and> trades_done r2 = trades_done r
      \<and> (if current_state r2 = current_state r then True
          else current_state r2 = POSITION_OPEN))"

text \<open>The invariant of the main loop while only zero samples have been recorded: after
  \<open>n\<close> iterations of which \<open>u\<close> reached the state machine, the history holds \<open>n + u\<close>
  zeros, four at most; the state machine has left \<open>WAITING_TO_BUY\<close> only if it ran, and can be in
  \<open>WAITING_FOR_SELL\<close> only after two runs.\<close>

definition loop_inv :: "nat \<Rightarrow> nat \<Rightarrow> nat \<Rightarrow> runner \<Rightarrow> bool" where
  "loop_inv today n u r =
     (zeros today (n + u) (safety r) \<and> 0 < min_win_rate (safety r)
      \<and> 0 \<le> max_daily_loss (safety r) \<and> u \<le> n \<and> n + u \<le> 4
      \<and> (if u = 0 then current_state r = WAITING_TO_BUY
          else if u = 1 then current_state r = WAITING_TO_BUY \<or> current_state r = POSITION_OPEN
          else True))"

section \<open>Theorems: the sleep budget\<close>

lemma safe_sleep_limits: "limits (snd (safe_sleep env m d ctx j)) = limits m"
  by (simp add: safe_sleep_def Let_def)

lemma safe_sleep_exact_bound:
  assumes "total_sleep_time m \<le> max_total_wait (limits m)" "exact_call (limits m) c"
  shows "total_sleep_time
           (snd (safe_sleep (sc_env c) m (sc_duration c) (sc_context c) (sc_jitter c)))
         \<le> max_total_wait (limits m)"
  using assms by (auto simp: safe_sleep_def exact_call_def Let_def)

lemma run_sleeps_exact_bound:
  "total_sleep_time m \<le> max_total_wait (limits m) \<Longrightarrow> list_all (exact_call (limits m)) cs
     \<Longrightarrow> total_sleep_time (run_sleeps m cs) \<le> max_total_wait (limits m)"
proof (induction cs arbitrary: m)
  case Nil
  then show ?case by simp
next
  case (Cons c cs)
  let ?m = "snd (safe_sleep (sc_env c) m (sc_duration c) (sc_context c) (sc_jitter c))"
  have "total_sleep_time ?m \<le> max_total_wait (limits ?m)"
    using Cons.prems safe_sleep_exact_bound[of m c] by (simp add: safe_sleep_limits)
  moreover have "list_all (exact_call (limits ?m)) cs"
    using Cons.prems by (simp add: safe_sleep_limits)
  ultimately have "total_sleep_time (run_sleeps ?m cs) \<le> max_total_wait (limits ?m)"
    by (rule Cons.IH)
  then show ?case by (simp add: safe_sleep_limits)
qed

text \<open>
  Claim C7, as the code has it.  (a) A call of \<open>safe_sleep\<close> whose sanitized duration would
  push the running total past \<open>max_total_wait\<close> returns False and leaves the manager as it
  was: nothing is slept and nothing is recorded.  (b) Over any session of calls that sleep
  exactly their sanitized duration (jitter off or circuit-breaker context, and the measured
  pause equal to the requested one) the cumulative sleep time never exceeds
  \<open>max_total_wait\<close>.  (c) The trading sleep manager is created with a limit of 1800 seconds
  (30 minutes); the API sleep manager and the default limits have 3600 seconds.
\<close>

theorem safe_sleep_budget:
  "(total_sleep_time m + sanitize_duration (limits m) d ctx > max_total_wait (limits m)
      \<longrightarrow> safe_sleep env m d ctx j = (False, m))
   \<and> (total_sleep_time m \<le> max_total_wait (limits m) \<and> list_all (exact_call (limits m)) cs
      \<longrightarrow> total_sleep_time (run_sleeps m cs) \<le> max_total_wait (limits m))
   \<and> max_total_wait (limits (create_trading_sleep_manager now)) = 1800
   \<and> max_total_wait (limits (create_api_sleep_manager now)) = 3600
   \<and> max_total_wait SleepLimits_default = 3600"
proof -
  have a: "total_sleep_time m + sanitize_duration (limits m) d ctx > max_total_wait (limits m)
      \<longrightarrow> safe_sleep env m d ctx j = (False, m)"
    by (simp add: safe_sleep_def Let_def)
  have b: "total_sleep_time m \<le> max_total_wait (limits m)
             \<and> list_all (exact_call (limits m)) cs
      \<longrightarrow> total_sleep_time (run_sleeps m cs) \<le> max_total_wait (limits m)"
    using run_sleeps_exact_bound by blast
  have c: "max_total_wait (limits (create_trading_sleep_manager now)) = 1800"
    by (simp add: create_trading_sleep_manager_def SafeSleepManager_init_def)
  have d: "max_total_wait (limits (create_api_sleep_manager now)) = 3600"
    by (simp add: create_api_sleep_manager_def SafeSleepManager_init_def)
  have e: "max_total_wait SleepLimits_default = 3600"
    by (simp add: SleepLimits_default_def)
  from a b c d e show ?thesis by blast
qed

text \<open>Witness for C7: a trading manager that has slept 1795 s refuses a 10 s sleep, and a
  session of a 20 s trading sleep followed by a circuit-breaker sleep of 700 s (sanitized
  to 600 s) stays within the 1800 s limit.\<close>

theorem safe_sleep_budget_witness:
  "safe_sleep \<lparr>jitter_factor = 1, sleep_now = 0, slept = (\<lambda>d. d)\<rparr>
      ((create_trading_sleep_manager 0)\<lparr>total_sleep_time := 1795\<rparr>) 10 TRADING_CYCLE False
     = (False, (create_trading_sleep_manager 0)\<lparr>total_sleep_time := 1795\<rparr>)
   \<and> total_sleep_time (run_sleeps (create_trading_sleep_manager 0)
        [\<lparr>sc_env = \<lparr>jitter_factor = 1, sleep_now = 0, slept = (\<lambda>d. d)\<rparr>, sc_duration = 20,
          sc_context = TRADING_CYCLE, sc_jitter = False\<rparr>,
         \<lparr>sc_env = \<lparr>jitter_factor = 1, sleep_now = 20, slept = (\<lambda>d. d)\<rparr>, sc_duration = 700,
          sc_context = CIRCUIT_BREAKER, sc_jitter = True\<rparr>]) \<le> 1800"
proof -
  let ?e = "\<lparr>jitter_factor = 1, sleep_now = 0, slept = (\<lambda>d. d)\<rparr>"
  let ?m0 = "create_trading_sleep_manager 0"
  let ?m1 = "?m0\<lparr>total_sleep_time := 1795\<rparr>"
  let ?cs = "[\<lparr>sc_env = \<lparr>jitter_factor = 1, sleep_now = 0, slept = (\<lambda>d. d)\<rparr>, sc_duration = 20,
          sc_context = TRADING_CYCLE, sc_jitter = False\<rparr>,
         \<lparr>sc_env = \<lparr>jitter_factor = 1, sleep_now = 20, slept = (\<lambda>d. d)\<rparr>, sc_duration = 700,
          sc_context = CIRCUIT_BREAKER, sc_jitter = True\<rparr>]"
  have h1: "total_sleep_time ?m1 + sanitize_duration (limits ?m1) 10 TRADING_CYCLE
              > max_total_wait (limits ?m1)"
    by (simp add: create_trading_sleep_manager_def SafeSleepManager_init_def
        sanitize_duration_def)
  have h2: "total_sleep_time ?m0 \<le> max_total_wait (limits ?m0)
            \<and> list_all (exact_call (limits ?m0)) ?cs"
    by (simp add: create_trading_sleep_manager_def SafeSleepManager_init_def exact_call_def)
  have l: "max_total_wait (limits ?m0) = 1800"
    by (simp add: create_trading_sleep_manager_def SafeSleepManager_init_def)
  have r1: "safe_sleep ?e ?m1 10 TRADING_CYCLE False = (False, ?m1)"
    using safe_sleep_budget[of ?m1 10 TRADING_CYCLE ?e False "[]" 0] h1 by blast
  have r2: "total_sleep_time (run_sleeps ?m0 ?cs) \<le> max_total_wait (limits ?m0)"
    using safe_sleep_budget[of ?m0 10 TRADING_CYCLE ?e False ?cs 0] h2 by blast
  from r1 r2 l show ?thesis by simp
qed

text \<open>Counterexample to C7 as stated: the trading manager's limit is not one hour, and with
  the default jitter a sleep admitted at a total of 1790 s (10 s requested, drawn factor
  1.1) brings the cumulative sleep time to 1801 s, above the limit of 1800 s.\<close>

theorem safe_sleep_budget_counterexample:
  "max_total_wait (limits (create_trading_sleep_manager 0)) \<noteq> 3600
   \<and> total_sleep_time (snd (safe_sleep \<lparr>jitter_factor = 1.1, sleep_now = 0, slept = (\<lambda>d. d)\<rparr>
        ((create_trading_sleep_manager 0)\<lparr>total_sleep_time := 1790\<rparr>) 10 TRADING_CYCLE True))
       > max_total_wait (limits (create_trading_sleep_manager 0))"
  by (simp add: create_trading_sleep_manager_def SafeSleepManager_init_def safe_sleep_def
        sanitize_duration_def Let_def)

section \<open>Theorems: the two circuit breakers\<close>

lemma cb_inv_preserved:
  "cb_inv (CircuitBreaker_init th to)"
  "cb_inv b \<Longrightarrow> cb_inv (cb_record_failure now b)"
  "cb_inv b \<Longrightarrow> cb_inv (cb_record_success b)"
  "cb_inv b \<Longrightarrow> cb_inv (snd (can_proceed now b))"
  by (auto simp: cb_inv_def CircuitBreaker_init_def cb_record_failure_def cb_record_success_def
        can_proceed_def Let_def)

lemma record_failure_fields:
  "failure_count (record_failure now ft t) = failure_count t + 1"
  "consecutive_failures (record_failure now ft t) = consecutive_failures t + 1"
  "last_failure_time (record_failure now ft t) = now"
  "cooldown_seconds (record_failure now ft t) = cooldown_seconds t"
  "backoff_multiplier (record_failure now ft t) = backoff_multiplier t"
  "max_backoff (record_failure now ft t) = max_backoff t"
  "max_failures (record_failure now ft t) = max_failures t"
  "circuit_open (record_failure now ft t) = (circuit_open t \<or> max_failures t \<le> failure_count t + 1)"
  by (auto simp: record_failure_def Let_def split: option.splits)

text \<open>
  Claim C8, as the code has it.  The engine's \<open>OrderFailureTracker\<close> applies the
  consecutive-failure backoff: after a failure at time \<open>t0\<close> that leaves the total below
  \<open>max_failures\<close>, the tracker stays closed and \<open>can_place_order\<close> is False exactly while
  \<open>now - t0 < min (cooldown * backoff_multiplier ^ (consecutive - 1)) max_backoff\<close>; it has
  no half-open state, an open tracker goes straight back to closed with its counters reset
  once the cooldown has elapsed.  The retry manager's \<open>CircuitBreaker\<close> has the three
  states: closed with failures reaching the threshold goes to open; open goes to half-open
  at the first \<open>can_proceed\<close> after the recovery timeout; success in half-open closes it
  and resets the count; failure in half-open reopens it; its \<open>can_proceed\<close> is always True
  while closed.
\<close>

theorem breaker_backoff_and_transitions:
  "(\<not> circuit_open t \<and> failure_count t + 1 < max_failures t \<longrightarrow>
      \<not> circuit_open (record_failure t0 ft t)
      \<and> fst (can_place_order now (record_failure t0 ft t))
          = (\<not> now - t0 < min (cooldown_seconds t * backoff_multiplier t ^ (consecutive_failures t + 1 - 1))
                             (max_backoff t)))
   \<and> (circuit_open t \<and> now - last_failure_time t \<ge> cooldown_seconds t \<longrightarrow>
        can_place_order now t
          = (True, t\<lparr>circuit_open := False, failure_count := 0, consecutive_failures := 0\<rparr>))
   \<and> (state b = CLOSED \<longrightarrow> can_proceed now b = (True, b))
   \<and> (state b = CLOSED \<and> failure_threshold b \<le> cb_failure_count b + 1 \<longrightarrow>
        state (cb_record_failure now b) = OPEN)
   \<and> (state b = OPEN \<longrightarrow>
        can_proceed now b
          = (if now - cb_last_failure_time b \<ge> recovery_timeout b
             then (True, b\<lparr>state := HALF_OPEN\<rparr>) else (False, b)))
   \<and> (state b = HALF_OPEN \<longrightarrow>
        cb_record_success b = b\<lparr>state := CLOSED, cb_failure_count := 0\<rparr>)
   \<and> (state b = HALF_OPEN \<and> cb_inv b \<longrightarrow>
        state (cb_record_failure now b) = OPEN
        \<and> cb_last_failure_time (cb_record_failure now b) = now)
   \<and> (cb_inv b \<longrightarrow> cb_inv (cb_record_failure now b) \<and> cb_inv (cb_record_success b)
        \<and> cb_inv (snd (can_proceed now b)))"
proof -
  have a: "\<not> circuit_open t \<and> failure_count t + 1 < max_failures t \<longrightarrow>
      \<not> circuit_open (record_failure t0 ft t)
      \<and> fst (can_place_order now (record_failure t0 ft t))
          = (\<not> now - t0 < min (cooldown_seconds t * backoff_multiplier t ^ (consecutive_failures t + 1 - 1))
                             (max_backoff t))"
    by (simp add: can_place_order_def backoff_time_def record_failure_fields)
  have b: "circuit_open t \<and> now - last_failure_time t \<ge> cooldown_seconds t \<longrightarrow>
        can_place_order now t
          = (True, t\<lparr>circuit_open := False, failure_count := 0, consecutive_failures := 0\<rparr>)"
    by (simp add: can_place_order_def)
  have c: "state b = CLOSED \<longrightarrow> can_proceed now b = (True, b)"
    by (simp add: can_proceed_def)
  have d: "state b = CLOSED \<and> failure_threshold b \<le> cb_failure_count b + 1 \<longrightarrow>
        state (cb_record_failure now b) = OPEN"
    by (simp add: cb_record_failure_def Let_def)
  have e: "state b = OPEN \<longrightarrow>
        can_proceed now b
          = (if now - cb_last_failure_time b \<ge> recovery_timeout b
             then (True, b\<lparr>state := HALF_OPEN\<rparr>) else (False, b))"
    by (simp add: can_proceed_def)
  have f: "state b = HALF_OPEN \<longrightarrow>
        cb_record_success b = b\<lparr>state := CLOSED, cb_failure_count := 0\<rparr>"
    by (simp add: cb_record_success_def)
  have g: "state b = HALF_OPEN \<and> cb_inv b \<longrightarrow>
        state (cb_record_failure now b) = OPEN
        \<and> cb_last_failure_time (cb_record_failure now b) = now"
    by (auto simp: cb_record_failure_def cb_inv_def Let_def)
  have h: "cb_inv b \<longrightarrow> cb_inv (cb_record_failure now b) \<and> cb_inv (cb_record_success b)
        \<and> cb_inv (snd (can_proceed now b))"
    using cb_inv_preserved by blast
  from a b c d e f g h show ?thesis by blast
qed

text \<open>Witness for C8: each hypothesis of the theorem at a concrete tracker or breaker.\<close>

theorem breaker_backoff_and_transitions_witness:
  "fst (can_place_order 130 (record_failure 100 ''unknown'' (OrderFailureTracker_init 5 60)))
     = False
   \<and> fst (can_place_order 160 (record_failure 100 ''unknown'' (OrderFailureTracker_init 5 60)))
     = True
   \<and> fst (can_place_order 161 ((OrderFailureTracker_init 5 60)
        \<lparr>failure_count := 5, consecutive_failures := 5, circuit_open := True,
          last_failure_time := 100\<rparr>)) = True
   \<and> can_proceed 0 (CircuitBreaker_init 5 300) = (True, CircuitBreaker_init 5 300)
   \<and> state (cb_record_failure 10 ((CircuitBreaker_init 5 300)\<lparr>cb_failure_count := 4\<rparr>)) = OPEN
   \<and> fst (can_proceed 400 ((CircuitBreaker_init 5 300)
        \<lparr>cb_failure_count := 5, cb_last_failure_time := 10, state := OPEN\<rparr>)) = True
   \<and> state (cb_record_success ((CircuitBreaker_init 5 300)
        \<lparr>cb_failure_count := 5, cb_last_failure_time := 10, state := HALF_OPEN\<rparr>)) = CLOSED
   \<and> state (cb_record_failure 500 ((CircuitBreaker_init 5 300)
        \<lparr>cb_failure_count := 5, cb_last_failure_time := 10, state := HALF_OPEN\<rparr>)) = OPEN"
proof -
  let ?t = "OrderFailureTracker_init 5 60"
  let ?to = "?t\<lparr>failure_count := 5, consecutive_failures := 5, circuit_open := True,
          last_failure_time := 100\<rparr>"
  let ?b0 = "CircuitBreaker_init 5 300"
  let ?b4 = "?b0\<lparr>cb_failure_count := 4\<rparr>"
  let ?bo = "?b0\<lparr>cb_failure_count := 5, cb_last_failure_time := 10, state := OPEN\<rparr>"
  let ?bh = "?b0\<lparr>cb_failure_count := 5, cb_last_failure_time := 10, state := HALF_OPEN\<rparr>"
  have ht: "\<not> circuit_open ?t \<and> failure_count ?t + 1 < max_failures ?t"
    by (simp add: OrderFailureTracker_init_def)
  have hto: "circuit_open ?to \<and> 161 - last_failure_time ?to \<ge> cooldown_seconds ?to"
    by (simp add: OrderFailureTracker_init_def)
  have hb0: "state ?b0 = CLOSED" by (simp add: CircuitBreaker_init_def)
  have hb4: "state ?b4 = CLOSED \<and> failure_threshold ?b4 \<le> cb_failure_count ?b4 + 1"
    by (simp add: CircuitBreaker_init_def)
  have hbo: "state ?bo = OPEN" by simp
  have hbh: "state ?bh = HALF_OPEN \<and> cb_inv ?bh" by (simp add: cb_inv_def CircuitBreaker_init_def)
  have 1: "fst (can_place_order 130 (record_failure 100 ''unknown'' ?t)) = False"
    using breaker_backoff_and_transitions[of ?t 100 "''unknown''" 130 ?b0] ht
    by (simp add: OrderFailureTracker_init_def)
  have 2: "fst (can_place_order 160 (record_failure 100 ''unknown'' ?t)) = True"
    using breaker_backoff_and_transitions[of ?t 100 "''unknown''" 160 ?b0] ht
    by (simp add: OrderFailureTracker_init_def)
  have 3: "fst (can_place_order 161 ?to) = True"
    using breaker_backoff_and_transitions[of ?to 100 "''unknown''" 161 ?b0] hto by simp
  have 4: "can_proceed 0 ?b0 = (True, ?b0)"
    using breaker_backoff_and_transitions[of ?t 100 "''unknown''" 0 ?b0] hb0 by blast
  have 5: "state (cb_record_failure 10 ?b4) = OPEN"
    using breaker_backoff_and_transitions[of ?t 100 "''unknown''" 10 ?b4] hb4 by blast
  have 6: "fst (can_proceed 400 ?bo) = True"
    using breaker_backoff_and_transitions[of ?t 100 "''unknown''" 400 ?bo] hbo
    by (simp add: CircuitBreaker_init_def)
  have 7: "state (cb_record_success ?bh) = CLOSED"
    using breaker_backoff_and_transitions[of ?t 100 "''unknown''" 500 ?bh] hbh by simp
  have 8: "state (cb_record_failure 500 ?bh) = OPEN"
    using breaker_backoff_and_transitions[of ?t 100 "''unknown''" 500 ?bh] hbh by blast
  from 1 2 3 4 5 6 7 8 show ?thesis by blast
qed

text \<open>Counterexample to C8 as stated: right after a failure below the threshold the
  retry manager's breaker is closed and its \<open>can_proceed\<close> is True (it has no backoff); and
  the engine's tracker, open with the cooldown elapsed, answers by closing and resetting its
  counters, with no half-open state in between.\<close>

theorem breaker_counterexample:
  "fst (can_proceed 100 (cb_record_failure 100 (CircuitBreaker_init 5 300))) = True
   \<and> state (cb_record_failure 100 (CircuitBreaker_init 5 300)) = CLOSED
   \<and> can_place_order 161 ((OrderFailureTracker_init 5 60)
        \<lparr>failure_count := 5, consecutive_failures := 5, circuit_open := True,
          last_failure_time := 100\<rparr>)
     = (True, (OrderFailureTracker_init 5 60)\<lparr>failure_count := 0, consecutive_failures := 0, circuit_open := False,
          last_failure_time := 100\<rparr>)"
  by (simp add: can_proceed_def cb_record_failure_def CircuitBreaker_init_def Let_def
        can_place_order_def OrderFailureTracker_init_def)

section \<open>Theorems: the retry loop\<close>

lemma retry_loop_events:
  "length (rs_events (snd (retry_loop cfg env as s))) \<le> length (rs_events s) + length as"
proof (induction as arbitrary: s)
  case Nil
  then show ?case by simp
next
  case (Cons a as)
  obtain ok h1 where c: "can_make_request (ae_now (env a)) (rs_handler s) = (ok, h1)"
    by (cases "can_make_request (ae_now (env a)) (rs_handler s)")
  show ?case
  proof (cases ok)
    case False
    let ?s = "s\<lparr>rs_handler := h1, rs_events := rs_events s @ [Skipped a]\<rparr>"
    have "retry_loop cfg env (a # as) s = retry_loop cfg env as ?s"
      using c False by simp
    then show ?thesis using Cons.IH[of ?s] by simp
  next
    case True
    show ?thesis
    proof (cases "ae_outcome (env a)")
      case (Returns v)
      then show ?thesis using c True by simp
    next
      case (Raises et ra)
      obtain delay h2 where d:
        "(if et = RATE_LIMIT
          then handle_rate_limit (ae_now (env a)) (ae_draw (env a)) ra h1
          else (calculate_delay (ae_draw (env a)) a cfg et, h1)) = (delay, h2)"
        by (cases "(if et = RATE_LIMIT
          then handle_rate_limit (ae_now (env a)) (ae_draw (env a)) ra h1
          else (calculate_delay (ae_draw (env a)) a cfg et, h1))")
      let ?s3 = "s\<lparr>rs_handler := h2, rs_events := rs_events s @ [Invoked a],
                   rs_attempts := rs_attempts s @
                     [\<lparr>attempt_number = a, error_type = et, delay_seconds = delay,
                       timestamp = ae_now (env a)\<rparr>]\<rparr>"
      show ?thesis
      proof (cases "a \<ge> max_attempts cfg")
        case True
        then show ?thesis using c \<open>ok\<close> Raises d by (simp add: Let_def)
      next
        case False
        then have "retry_loop cfg env (a # as) s = retry_loop cfg env as ?s3"
          using c \<open>ok\<close> Raises d by (simp add: Let_def)
        then show ?thesis using Cons.IH[of ?s3] by simp
      qed
    qed
  qed
qed

lemma filter_inv_skip: "length (filter is_invoked es) + length (filter is_skipped es) = length es"
proof (induction es)
  case Nil then show ?case by simp
next
  case (Cons e es) then show ?case by (cases e) simp_all
qed

lemma retry_loop_all_skipped:
  "(\<forall>a\<in>set as. ae_now (env a) < rate_limit_until (rs_handler s)) \<Longrightarrow>
     retry_loop cfg env as s
       = (Inl AttemptsExhausted, s\<lparr>rs_events := rs_events s @ map Skipped as, rs_failure := rs_failure s + 1\<rparr>)"
proof (induction as arbitrary: s)
  case Nil then show ?case by simp
next
  case (Cons a as)
  have c: "can_make_request (ae_now (env a)) (rs_handler s) = (False, rs_handler s)"
    using Cons.prems by (simp add: can_make_request_def)
  let ?s = "s\<lparr>rs_handler := rs_handler s, rs_events := rs_events s @ [Skipped a]\<rparr>"
  have "retry_loop cfg env (a # as) s = retry_loop cfg env as ?s"
    using c by simp
  also have "\<dots> = (Inl AttemptsExhausted, ?s\<lparr>rs_events := rs_events ?s @ map Skipped as, rs_failure := rs_failure ?s + 1\<rparr>)"
    using Cons.prems by (intro Cons.IH) simp
  finally show ?case by simp
qed

text \<open>
  Claim C9, as the code has it.  An attempt that the local rate-limit handler refuses is
  skipped, and the skipped attempt number is used up: over one call the invocations of the
  operation and the skipped attempts together never exceed \<open>max_attempts\<close>.  When the
  handler's cooldown covers every attempt, the operation is not invoked at all and the call
  fails after \<open>max_attempts\<close> skips.
\<close>

theorem retry_skip_consumes_attempt:
  "invocations (snd (execute_with_retry cfg now env s))
     + skips (snd (execute_with_retry cfg now env s)) \<le> max_attempts cfg
   \<and> (fst (can_proceed now (rs_breaker s))
       \<and> (\<forall>a\<in>set [1 ..< max_attempts cfg + 1]. ae_now (env a) < rate_limit_until (rs_handler s))
      \<longrightarrow> fst (execute_with_retry cfg now env s) = Inl AttemptsExhausted
          \<and> invocations (snd (execute_with_retry cfg now env s)) = 0
          \<and> skips (snd (execute_with_retry cfg now env s)) = max_attempts cfg)"
proof -
  obtain ok b1 where cp: "can_proceed now (rs_breaker s) = (ok, b1)"
    by (cases "can_proceed now (rs_breaker s)")
  let ?s0 = "s\<lparr>rs_breaker := b1, rs_attempts := [], rs_events := []\<rparr>"
  let ?as = "[1 ..< max_attempts cfg + 1]"
  let ?r = "execute_with_retry cfg now env s"
  have len: "length (rs_events (snd ?r)) \<le> max_attempts cfg"
  proof (cases ok)
    case True
    then have "?r = retry_loop cfg env ?as ?s0"
      using cp by (simp add: execute_with_retry_def)
    then show ?thesis using retry_loop_events[of cfg env ?as ?s0] by (simp del: upt_Suc)
  next
    case False
    then have "?r = (Inl BreakerOpen, ?s0)" using cp by (simp add: execute_with_retry_def)
    then show ?thesis by simp
  qed
  have p1: "invocations (snd ?r) + skips (snd ?r) \<le> max_attempts cfg"
    using len filter_inv_skip[of "rs_events (snd ?r)"] by (simp add: invocations_def skips_def)
  have p2: "fst (can_proceed now (rs_breaker s))
       \<and> (\<forall>a\<in>set ?as. ae_now (env a) < rate_limit_until (rs_handler s))
      \<longrightarrow> fst ?r = Inl AttemptsExhausted \<and> invocations (snd ?r) = 0
          \<and> skips (snd ?r) = max_attempts cfg"
  proof
    assume h: "fst (can_proceed now (rs_breaker s))
       \<and> (\<forall>a\<in>set ?as. ae_now (env a) < rate_limit_until (rs_handler s))"
    then have ok by (simp add: cp)
    then have e: "?r = retry_loop cfg env ?as ?s0"
      using cp by (simp add: execute_with_retry_def)
    have "\<forall>a\<in>set ?as. ae_now (env a) < rate_limit_until (rs_handler ?s0)" using h by simp
    then have "retry_loop cfg env ?as ?s0
       = (Inl AttemptsExhausted, ?s0\<lparr>rs_events := rs_events ?s0 @ map Skipped ?as, rs_failure := rs_failure ?s0 + 1\<rparr>)"
      by (rule retry_loop_all_skipped)
    with e have r: "?r = (Inl AttemptsExhausted, ?s0\<lparr>rs_events := map Skipped ?as, rs_failure := rs_failure s + 1\<rparr>)"
      by simp
    show "fst ?r = Inl AttemptsExhausted \<and> invocations (snd ?r) = 0
          \<and> skips (snd ?r) = max_attempts cfg"
      unfolding r by (simp add: invocations_def skips_def filter_map comp_def)
  qed
  from p1 p2 show ?thesis by blast
qed

text \<open>Witness for C9: three attempts, all inside a cooldown that lasts until time 50.\<close>

theorem retry_skip_consumes_attempt_witness:
  "fst (execute_with_retry (RetryConfig_default\<lparr>max_attempts := 3\<rparr>) 0
          (\<lambda>a. \<lparr>ae_now = real a, ae_outcome = Returns True, ae_draw = 0\<rparr>)
          (ApiRetryManager_init
             \<lparr>rs_handler := GateIORateLimitHandler_init\<lparr>rate_limit_until := 50\<rparr>\<rparr>))
     = Inl AttemptsExhausted
   \<and> invocations (snd (execute_with_retry (RetryConfig_default\<lparr>max_attempts := 3\<rparr>) 0
          (\<lambda>a. \<lparr>ae_now = real a, ae_outcome = Returns True, ae_draw = 0\<rparr>)
          (ApiRetryManager_init
             \<lparr>rs_handler := GateIORateLimitHandler_init\<lparr>rate_limit_until := 50\<rparr>\<rparr>))) = 0
   \<and> skips (snd (execute_with_retry (RetryConfig_default\<lparr>max_attempts := 3\<rparr>) 0
          (\<lambda>a. \<lparr>ae_now = real a, ae_outcome = Returns True, ae_draw = 0\<rparr>)
          (ApiRetryManager_init
             \<lparr>rs_handler := GateIORateLimitHandler_init\<lparr>rate_limit_until := 50\<rparr>\<rparr>))) = 3"
proof -
  let ?cfg = "RetryConfig_default\<lparr>max_attempts := 3\<rparr>"
  let ?env = "\<lambda>a. \<lparr>ae_now = real a, ae_outcome = Returns True, ae_draw = 0\<rparr>"
  let ?s = "ApiRetryManager_init
             \<lparr>rs_handler := GateIORateLimitHandler_init\<lparr>rate_limit_until := 50\<rparr>\<rparr>"
  have h: "fst (can_proceed 0 (rs_breaker ?s))
       \<and> (\<forall>a\<in>set [1 ..< max_attempts ?cfg + 1].
             ae_now (?env a) < rate_limit_until (rs_handler ?s))"
    by (simp add: ApiRetryManager_init_def CircuitBreaker_init_def can_proceed_def
        GateIORateLimitHandler_init_def)
  have m: "max_attempts ?cfg = 3" by simp
  show ?thesis
    using retry_skip_consumes_attempt[of ?cfg 0 ?env ?s] h unfolding m by blast
qed

text \<open>Counterexample to C9 as stated: with the default five attempts and a local cooldown
  that covers them all, an operation that would succeed at its first invocation is never
  invoked; every attempt number is consumed by a skip and the call fails.\<close>

theorem retry_skip_counterexample:
  "execute_with_retry RetryConfig_default 0
     (\<lambda>a. \<lparr>ae_now = real a, ae_outcome = Returns (42::nat), ae_draw = 0\<rparr>)
     (ApiRetryManager_init\<lparr>rs_handler := GateIORateLimitHandler_init\<lparr>rate_limit_until := 1000\<rparr>\<rparr>)
   = (Inl AttemptsExhausted,
      ApiRetryManager_init\<lparr>rs_handler := GateIORateLimitHandler_init\<lparr>rate_limit_until := 1000\<rparr>,
        rs_events := [Skipped 1, Skipped 2, Skipped 3, Skipped 4, Skipped 5], rs_failure := 1\<rparr>)"
  by (simp add: execute_with_retry_def RetryConfig_default_def ApiRetryManager_init_def
      GateIORateLimitHandler_init_def CircuitBreaker_init_def can_proceed_def can_make_request_def
      upt_rec)

section \<open>Theorems: the supervisor's health check and the budget\<close>

lemma list_all_update:
  "list_all P al \<Longrightarrow> P (k, v) \<Longrightarrow> list_all P (AList.update k v al)"
  by (induction al) auto

lemma set_bot_status_keyed: "keyed_by_pair st \<Longrightarrow> keyed_by_pair (set_bot_status st b)"
  by (simp add: keyed_by_pair_def set_bot_status_def list_all_update)

lemma keyed_lookup: "keyed_by_pair st \<Longrightarrow> get_bot_status st p = Some b \<Longrightarrow> pair b = p"
  by (auto simp: keyed_by_pair_def get_bot_status_def list_all_iff dest!: map_of_SomeD)

lemma health_step_keyed:
  "keyed_by_pair (shared_state m) \<Longrightarrow> keyed_by_pair (shared_state (health_step w m))"
  by (auto simp: health_step_def cleanup_worker_def Let_def set_bot_status_keyed
      split: option.splits)

lemma health_step_other:
  assumes "keyed_by_pair (shared_state m)" "fst w \<noteq> p"
  shows "get_bot_status (shared_state (health_step w m)) p = get_bot_status (shared_state m) p"
proof (cases "get_bot_status (shared_state m) (fst w)")
  case None
  then show ?thesis by (simp add: health_step_def cleanup_worker_def Let_def)
next
  case (Some b)
  then have "pair b = fst w" using assms(1) keyed_lookup by blast
  then show ?thesis using Some assms(2)
    by (simp add: health_step_def cleanup_worker_def Let_def set_bot_status_def
        get_bot_status_def update_conv')
qed

lemma health_step_dead:
  assumes "keyed_by_pair (shared_state m)" "\<not> is_alive (snd w)"
    "get_bot_status (shared_state m) (fst w) = Some b"
  shows "get_bot_status (shared_state (health_step w m)) (fst w)
           = Some (b\<lparr>status := ''ERROR'', errors_count := errors_count b + 1\<rparr>)"
proof -
  have "pair b = fst w" using assms keyed_lookup by blast
  then show ?thesis using assms
    by (simp add: health_step_def cleanup_worker_def Let_def set_bot_status_def
        get_bot_status_def update_conv')
qed

lemma fold_health_other:
  "keyed_by_pair (shared_state m) \<Longrightarrow> p \<notin> fst ` set ws \<Longrightarrow>
     get_bot_status (shared_state (fold health_step ws m)) p = get_bot_status (shared_state m) p"
proof (induction ws arbitrary: m)
  case Nil
  then show ?case by simp
next
  case (Cons w ws)
  have "get_bot_status (shared_state (fold health_step ws (health_step w m))) p
          = get_bot_status (shared_state (health_step w m)) p"
    using Cons.prems by (intro Cons.IH) (simp_all add: health_step_keyed)
  also have "\<dots> = get_bot_status (shared_state m) p"
    using Cons.prems by (intro health_step_other) auto
  finally show ?case by simp
qed

lemma fold_health_dead:
  "keyed_by_pair (shared_state m) \<Longrightarrow> distinct (map fst ws) \<Longrightarrow> (p, pr) \<in> set ws \<Longrightarrow>
   \<not> is_alive pr \<Longrightarrow> get_bot_status (shared_state m) p = Some b \<Longrightarrow>
     get_bot_status (shared_state (fold health_step ws m)) p
       = Some (b\<lparr>status := ''ERROR'', errors_count := errors_count b + 1\<rparr>)"
proof (induction ws arbitrary: m)
  case Nil
  then show ?case by simp
next
  case (Cons w ws)
  show ?case
  proof (cases "w = (p, pr)")
    case True
    have np: "p \<notin> fst ` set ws" using Cons.prems(2) True by auto
    have "get_bot_status (shared_state (fold health_step ws (health_step w m))) p
            = get_bot_status (shared_state (health_step w m)) p"
      using Cons.prems(1) np by (intro fold_health_other) (simp_all add: health_step_keyed)
    also have "\<dots> = Some (b\<lparr>status := ''ERROR'', errors_count := errors_count b + 1\<rparr>)"
      using health_step_dead[of m w b] Cons.prems True by simp
    finally show ?thesis by simp
  next
    case False
    then have in_ws: "(p, pr) \<in> set ws" using Cons.prems(3) by simp
    then have "p \<in> fst ` set ws" by force
    moreover have "fst w \<notin> fst ` set ws" using Cons.prems(2) by simp
    ultimately have "fst w \<noteq> p" by blast
    then have "get_bot_status (shared_state (health_step w m)) p = Some b"
      using health_step_other[of m w p] Cons.prems by simp
    then have "get_bot_status (shared_state (fold health_step ws (health_step w m))) p
       = Some (b\<lparr>status := ''ERROR'', errors_count := errors_count b + 1\<rparr>)"
      using Cons.prems in_ws by (intro Cons.IH) (simp_all add: health_step_keyed)
    then show ?thesis by simp
  qed
qed

lemma health_step_workers_subset:
  "fst ` set (workers (health_step w m)) \<subseteq> fst ` set (workers m)"
  using dom_delete_subset[of "fst w" "workers m"]
  by (auto simp: health_step_def cleanup_worker_def Let_def split: option.splits)

lemma fold_health_workers_absent:
  "p \<notin> fst ` set (workers m) \<Longrightarrow> p \<notin> fst ` set (workers (fold health_step ws m))"
proof (induction ws arbitrary: m)
  case Nil
  then show ?case by simp
next
  case (Cons w ws)
  have "p \<notin> fst ` set (workers (health_step w m))"
    using Cons.prems health_step_workers_subset[of w m] by blast
  then show ?case using Cons.IH[of "health_step w m"] by simp
qed

lemma fold_health_workers_removed:
  "(p, pr) \<in> set ws \<Longrightarrow> \<not> is_alive pr \<Longrightarrow>
     p \<notin> fst ` set (workers (fold health_step ws m))"
proof (induction ws arbitrary: m)
  case Nil
  then show ?case by simp
next
  case (Cons w ws)
  show ?case
  proof (cases "w = (p, pr)")
    case True
    have "p \<notin> fst ` set (workers (health_step w m))"
      using True Cons.prems(2) delete_notin_dom[of p "workers m"]
      by (simp add: health_step_def cleanup_worker_def Let_def split: option.splits)
    then show ?thesis using fold_health_workers_absent[of p "health_step w m" ws] by simp
  next
    case False
    then have "(p, pr) \<in> set ws" using Cons.prems(1) by simp
    then show ?thesis using Cons.IH[of "health_step w m"] Cons.prems(2) by simp
  qed
qed

lemma update_budget_info_bots: "bots (snd (update_budget_info t st)) = bots st"
  by (simp add: update_budget_info_def Let_def)

text \<open>
  Claim C6, as the code has it.  When a round of the monitor loop finds the worker of pair
  \<open>p\<close> dead, the bot's status becomes ERROR, its \<open>errors_count\<close> grows by one and the
  worker leaves the supervisor's table; the global allocated amount that the round then
  recomputes is the sum of \<open>allocated_budget\<close> over the bots whose status is STARTING or
  RUNNING only, and the available amount is \<open>max 0 (total - allocated)\<close>.  The coordinator's
  \<open>deallocate_budget\<close> never refuses: it sets the \<open>allocated_budget\<close> of any registered bot
  to 0, whatever its status.
\<close>

theorem dead_worker_and_deallocation:
  assumes "keyed_by_pair (shared_state m)" "distinct (map fst (workers m))"
    "(p, pr) \<in> set (workers m)" "\<not> is_alive pr"
    "get_bot_status (shared_state m) p = Some b"
    "get_bot_status st q = Some c" "pair c = q"
  shows "map_option status (get_bot_status (shared_state (monitor_round t m)) p) = Some ''ERROR''
    \<and> map_option errors_count (get_bot_status (shared_state (monitor_round t m)) p)
        = Some (errors_count b + 1)
    \<and> p \<notin> fst ` set (workers (monitor_round t m))
    \<and> allocated_usdt (global_budget (shared_state (monitor_round t m)))
        = sum_list (map allocated_budget
            (filter is_active (map snd (bots (shared_state (monitor_round t m))))))
    \<and> available_usdt (global_budget (shared_state (monitor_round t m)))
        = max 0 (t - allocated_usdt (global_budget (shared_state (monitor_round t m))))
    \<and> get_bot_status (deallocate_budget t st q) q = Some (c\<lparr>allocated_budget := 0\<rparr>)"
proof -
  let ?m1 = "check_workers_health m"
  have g: "get_bot_status (shared_state ?m1) p
             = Some (b\<lparr>status := ''ERROR'', errors_count := errors_count b + 1\<rparr>)"
    unfolding check_workers_health_def using assms(1-5) by (rule fold_health_dead)
  have gm: "get_bot_status (shared_state (monitor_round t m)) p
              = get_bot_status (shared_state ?m1) p"
    by (simp add: monitor_round_def Let_def get_bot_status_def update_budget_info_bots)
  have w: "p \<notin> fst ` set (workers (monitor_round t m))"
    using fold_health_workers_removed[OF assms(3,4), of m]
    by (simp add: monitor_round_def Let_def check_workers_health_def)
  have a: "allocated_usdt (global_budget (shared_state (monitor_round t m)))
        = sum_list (map allocated_budget
            (filter is_active (map snd (bots (shared_state (monitor_round t m))))))"
    by (simp add: monitor_round_def Let_def update_budget_info_def)
  have v: "available_usdt (global_budget (shared_state (monitor_round t m)))
        = max 0 (t - allocated_usdt (global_budget (shared_state (monitor_round t m))))"
    by (simp add: monitor_round_def Let_def update_budget_info_def)
  have d: "get_bot_status (deallocate_budget t st q) q = Some (c\<lparr>allocated_budget := 0\<rparr>)"
    using assms(6,7)
    by (simp add: deallocate_budget_def Let_def get_bot_status_def update_budget_info_bots
        set_bot_status_def update_conv')
  from g gm w a v d show ?thesis by simp
qed

text \<open>Witness for C6: the supervisor with a dead BTC worker, and the release of the
  budget of that bot once it is in status ERROR.\<close>

theorem dead_worker_and_deallocation_witness:
  "map_option status
     (get_bot_status (shared_state (monitor_round 100 two_bots_one_dead)) ''BTC_USDT'')
     = Some ''ERROR''
   \<and> map_option errors_count
     (get_bot_status (shared_state (monitor_round 100 two_bots_one_dead)) ''BTC_USDT'')
     = Some 1
   \<and> ''BTC_USDT'' \<notin> fst ` set (workers (monitor_round 100 two_bots_one_dead))
   \<and> get_bot_status
        (deallocate_budget 100
           \<lparr>bots = [(''BTC_USDT'', (running_bot ''BTC_USDT'' 4242 1000 50)\<lparr>status := ''ERROR''\<rparr>)],
            global_budget = \<lparr>total_usdt = 100, allocated_usdt = 0, available_usdt = 100\<rparr>,
            system_status = ''IDLE''\<rparr> ''BTC_USDT'') ''BTC_USDT''
     = Some ((running_bot ''BTC_USDT'' 4242 1000 50)
               \<lparr>status := ''ERROR'', allocated_budget := 0\<rparr>)"
proof -
  let ?m = two_bots_one_dead
  let ?pr = "\<lparr>is_alive = False, proc_pid = 4242\<rparr>"
  let ?b = "running_bot ''BTC_USDT'' 4242 1000 50"
  let ?c = "?b\<lparr>status := ''ERROR''\<rparr>"
  let ?st = "\<lparr>bots = [(''BTC_USDT'', ?c)],
            global_budget = \<lparr>total_usdt = 100, allocated_usdt = 0, available_usdt = 100\<rparr>,
            system_status = ''IDLE''\<rparr>"
  have h1: "keyed_by_pair (shared_state ?m)"
    by (simp add: two_bots_one_dead_def keyed_by_pair_def running_bot_def)
  have h2: "distinct (map fst (workers ?m))" by (simp add: two_bots_one_dead_def)
  have h3: "(''BTC_USDT'', ?pr) \<in> set (workers ?m)" by (simp add: two_bots_one_dead_def)
  have h4: "\<not> is_alive ?pr" by simp
  have h5: "get_bot_status (shared_state ?m) ''BTC_USDT'' = Some ?b"
    by (simp add: two_bots_one_dead_def get_bot_status_def)
  have h6: "get_bot_status ?st ''BTC_USDT'' = Some ?c" by (simp add: get_bot_status_def)
  have h7: "pair ?c = ''BTC_USDT''" by (simp add: running_bot_def)
  have e: "errors_count ?b + 1 = 1" by (simp add: running_bot_def)
  note th = dead_worker_and_deallocation[OF h1 h2 h3 h4 h5 h6 h7, of 100]
  have t1: "map_option status
     (get_bot_status (shared_state (monitor_round 100 ?m)) ''BTC_USDT'') = Some ''ERROR''"
    using th by (rule conjunct1)
  have t2: "map_option errors_count
     (get_bot_status (shared_state (monitor_round 100 ?m)) ''BTC_USDT'') = Some 1"
    using th[THEN conjunct2, THEN conjunct1] by (simp only: e)
  have t3: "''BTC_USDT'' \<notin> fst ` set (workers (monitor_round 100 ?m))"
    using th[THEN conjunct2, THEN conjunct2] by (rule conjunct1)
  have t6: "get_bot_status (deallocate_budget 100 ?st ''BTC_USDT'') ''BTC_USDT''
              = Some (?b\<lparr>status := ''ERROR'', allocated_budget := 0\<rparr>)"
    by (rule th[THEN conjunct2, THEN conjunct2, THEN conjunct2, THEN conjunct2,
          THEN conjunct2])
  from t1 t2 t3 t6 show ?thesis by (intro conjI)
qed

text \<open>Counterexample to C6 as stated: after the health check (and after the whole monitor
  round) the dead worker's bot is in status ERROR and still has \<open>allocated_budget = 50\<close>,
  so a positive allocation does not imply status starting or running; and the coordinator
  then releases that allocation on request although the status is ERROR.\<close>

theorem dead_worker_counterexample:
  "get_bot_status (shared_state (check_workers_health two_bots_one_dead)) ''BTC_USDT''
     = Some ((running_bot ''BTC_USDT'' 4242 1000 50)\<lparr>status := ''ERROR'', errors_count := 1\<rparr>)
   \<and> map_option allocated_budget
        (get_bot_status (shared_state (monitor_round 100 two_bots_one_dead)) ''BTC_USDT'')
      = Some 50
   \<and> map_option allocated_budget
        (get_bot_status
           (deallocate_budget 100 (shared_state (monitor_round 100 two_bots_one_dead))
              ''BTC_USDT'') ''BTC_USDT'')
      = Some 0"
  by (simp add: two_bots_one_dead_def check_workers_health_def health_step_def
      get_bot_status_def set_bot_status_def cleanup_worker_def running_bot_def
      monitor_round_def update_budget_info_def deallocate_budget_def Let_def is_active_def)

section \<open>Theorems: order placement and the client's caches\<close>

lemmas client_defs = get_wallet_balance_def GateIOClient_init_def SmartCache_init_def
  cache_get_def request_def cleanup_caches_def cache_set_def Let_def place_spot_order_def
  get_min_order_value_with_margin_def MIN_ORDER_VALUE_USDT_def SAFETY_MARGIN_def
  CACHE_TIMEOUT_orderbook_def CACHE_TIMEOUT_stats_def get_all_buy_trades_def
  refresh_portfolio_data_def accounts_before_def accounts_after_def old_fill_def new_fill_def
  to_buy_trade_def DEFAULT_TAKER_FEE_def

lemma place_spot_order_same_client:
  "now - last_cache_cleanup c \<le> 60 \<Longrightarrow> snd (place_spot_order now reply c p sd a pr) = c"
  by (simp add: place_spot_order_def request_def cleanup_caches_def)

text \<open>
  Claim C10 at a concrete run.  The wallet balance of BTC is read (0) and cached at time
  1000; a buy is placed through \<open>place_spot_order\<close> at time 1001 and accepted; the exchange
  now holds 0.001 BTC and a new fill, yet at time 1002 \<open>get_wallet_balance\<close> still answers
  0 and \<open>get_all_buy_trades\<close> still answers the single old fill: the placement has
  invalidated neither entry.  With the dashboard's \<open>refresh_portfolio_data\<close> run after the
  order, as the manual order path does, both reads give the post-order state.
\<close>

theorem order_leaves_caches_stale:
  "fst (get_wallet_balance 1000 (Some accounts_before) (GateIOClient_init 990) ''BTC'') = 0
   \<and> fst (place_spot_order 1001 (Some ''42'')
        (snd (get_wallet_balance 1000 (Some accounts_before) (GateIOClient_init 990) ''BTC''))
        ''BTC_USDT'' ''buy'' 0.001 50000) = OrderReply (Some ''42'')
   \<and> fst (get_wallet_balance 1002 (Some accounts_after)
        (snd (place_spot_order 1001 (Some ''42'')
           (snd (get_wallet_balance 1000 (Some accounts_before) (GateIOClient_init 990) ''BTC''))
           ''BTC_USDT'' ''buy'' 0.001 50000))
        ''BTC'') = 0
   \<and> fst (get_wallet_balance 1002 (Some accounts_after)
        (refresh_portfolio_data
           (snd (place_spot_order 1001 (Some ''42'')
              (snd (get_wallet_balance 1000 (Some accounts_before) (GateIOClient_init 990)
                      ''BTC''))
              ''BTC_USDT'' ''buy'' 0.001 50000)) ''BTC_USDT'')
        ''BTC'') = 0.001
   \<and> map bt_order_id (fst (get_all_buy_trades 1002 (Some [old_fill, new_fill])
        (snd (place_spot_order 1001 (Some ''42'')
           (snd (get_all_buy_trades 1000 (Some [old_fill]) (GateIOClient_init 990) ''BTC_USDT''))
           ''BTC_USDT'' ''buy'' 0.001 50000))
        ''BTC_USDT'')) = [''41'']
   \<and> map bt_order_id (fst (get_all_buy_trades 1002 (Some [old_fill, new_fill])
        (refresh_portfolio_data
           (snd (place_spot_order 1001 (Some ''42'')
              (snd (get_all_buy_trades 1000 (Some [old_fill]) (GateIOClient_init 990)
                      ''BTC_USDT''))
              ''BTC_USDT'' ''buy'' 0.001 50000)) ''BTC_USDT'')
        ''BTC_USDT'')) = [''42'', ''41'']"
  by (simp add: client_defs)

section \<open>Theorems: the trading engine\<close>

declare poll_loop.simps [simp del] scalp_loop.simps [simp del]

lemma check_open_orders_False [simp]: "check_open_orders listed = False"
  by (simp add: check_open_orders_def client_list_spot_orders_def GateIOClient_attributes_def)

text \<open>
  Claim C5.  \<open>check_open_orders\<close> returns False whatever the exchange lists: the class
  of the client defines no attribute \<open>list_spot_orders\<close>, the call raises AttributeError
  and the bare \<^verbatim>\<open>except\<close> answers False.  So in \<open>WAITING_FOR_SELL\<close> with a balance
  above the dust threshold the state machine sets the state back to \<open>POSITION_OPEN\<close>, and
  so does every loop iteration that reaches the state machine.
\<close>

theorem sell_order_never_seen:
  "check_open_orders listed = False
   \<and> (current_state r = WAITING_FOR_SELL \<and> wallet_balance e > 0.0001 \<longrightarrow>
        state_machine P e r = (Normal, r\<lparr>current_state := POSITION_OPEN\<rparr>))
   \<and> (current_state r = WAITING_FOR_SELL \<and> wallet_balance e > 0.0001
        \<and> fst (can_place_order (tracker_now e) (failure_tracker r))
        \<and> fst (check_trade (check_today e) 0 (safety r)) \<longrightarrow>
        fst (loop_iteration P e r) = Continue
        \<and> current_state (snd (loop_iteration P e r)) = POSITION_OPEN)"
proof -
  have a: "check_open_orders listed = False" by simp
  have b: "current_state r = WAITING_FOR_SELL \<and> wallet_balance e > 0.0001 \<longrightarrow>
        state_machine P e r = (Normal, r\<lparr>current_state := POSITION_OPEN\<rparr>)" for r
    by (simp add: state_machine_def wfs_branch_def get_position_info_def Let_def)
  have c: "current_state r = WAITING_FOR_SELL \<and> wallet_balance e > 0.0001
        \<and> fst (can_place_order (tracker_now e) (failure_tracker r))
        \<and> fst (check_trade (check_today e) 0 (safety r)) \<longrightarrow>
        fst (loop_iteration P e r) = Continue
        \<and> current_state (snd (loop_iteration P e r)) = POSITION_OPEN"
    using b[of "r\<lparr>failure_tracker := snd (can_place_order (tracker_now e) (failure_tracker r)),
                   safety := snd (check_trade (check_today e) 0 (safety r))\<rparr>"]
    by (auto simp: loop_iteration_def split: prod.splits)
  from a b c show ?thesis by blast
qed

text \<open>Witness for C5: a position of one unit waiting for its sale, the balance still
  there.\<close>

theorem sell_order_never_seen_witness:
  "state_machine scalp_defaults (calm_env\<lparr>wallet_balance := 1\<rparr>)
     ((open_position scalp_defaults)\<lparr>current_state := WAITING_FOR_SELL\<rparr>)
     = (Normal, open_position scalp_defaults)
   \<and> current_state (snd (loop_iteration scalp_defaults (calm_env\<lparr>wallet_balance := 1\<rparr>)
        ((open_position scalp_defaults)\<lparr>current_state := WAITING_FOR_SELL\<rparr>)))
     = POSITION_OPEN"
proof -
  let ?e = "calm_env\<lparr>wallet_balance := 1\<rparr>"
  let ?r = "(open_position scalp_defaults)\<lparr>current_state := WAITING_FOR_SELL\<rparr>"
  have h1: "current_state ?r = WAITING_FOR_SELL \<and> wallet_balance ?e > 0.0001" by simp
  have h2: "fst (can_place_order (tracker_now ?e) (failure_tracker ?r))"
    by (simp add: can_place_order_def open_position_def init_runner_def
        OrderFailureTracker_init_def)
  have h3: "fst (check_trade (check_today ?e) 0 (safety ?r))"
    by (simp add: check_trade_def open_position_def init_runner_def SafetySystem_init_def
        calm_env_def scalp_defaults_def Let_def)
  have u: "?r\<lparr>current_state := POSITION_OPEN\<rparr> = open_position scalp_defaults"
    by (simp add: open_position_def)
  note th = sell_order_never_seen[of "[]" ?r ?e scalp_defaults]
  have a: "state_machine scalp_defaults ?e ?r = (Normal, ?r\<lparr>current_state := POSITION_OPEN\<rparr>)"
    using th h1 by blast
  have b: "current_state (snd (loop_iteration scalp_defaults ?e ?r)) = POSITION_OPEN"
    using th h1 h2 h3 by blast
  from a b u show ?thesis by simp
qed

text \<open>What the body of an iteration may do to the parts of the state that the loop guard reads.\<close>

lemma poll_loop_keeps:
  "safety (poll_runner (poll_loop ps w q p u a bal r)) = safety r
   \<and> failure_tracker (poll_runner (poll_loop ps w q p u a bal r)) = failure_tracker r
   \<and> trades_done (poll_runner (poll_loop ps w q p u a bal r)) = trades_done r
   \<and> (current_state (poll_runner (poll_loop ps w q p u a bal r)) = current_state r
      \<or> current_state (poll_runner (poll_loop ps w q p u a bal r)) = POSITION_OPEN)"
proof (induction ps w q p u a bal r rule: poll_loop.induct)
  case (1 ps w q p u a bal r)
  let ?rec = "(reset_dca r)\<lparr>current_state := POSITION_OPEN, position_entry_price := p,
                position_quantity := the bal, position_time := fst (ps a),
                dca_total_invested := u, dca_weighted_avg_price := p\<rparr>"
  consider (stop) "\<not> (fst (ps a) < w \<and> a < max_balance_checks)"
    | (filled) b where "fst (ps a) < w \<and> a < max_balance_checks" "snd (ps a) = Bal b"
        "b \<noteq> 0 \<and> b \<ge> q * 0.999"
    | (again) b where "fst (ps a) < w \<and> a < max_balance_checks" "snd (ps a) = Bal b"
        "\<not> (b \<noteq> 0 \<and> b \<ge> q * 0.999)"
    | (last) "fst (ps a) < w \<and> a < max_balance_checks" "snd (ps a) = ReadError"
        "a + 1 \<ge> max_balance_checks"
    | (unbound) "fst (ps a) < w \<and> a < max_balance_checks" "snd (ps a) = ReadError"
        "\<not> a + 1 \<ge> max_balance_checks" "bal = None"
    | (handler) "fst (ps a) < w \<and> a < max_balance_checks" "snd (ps a) = ReadError"
        "\<not> a + 1 \<ge> max_balance_checks" "bal \<noteq> None"
    by (cases "snd (ps a)") auto
  then show ?case
  proof cases
    case stop
    have e: "poll_loop ps w q p u a bal r = PollExit False r"
      by (simp add: poll_loop.simps[of ps w q p u a] stop)
    show ?thesis by (simp add: e)
  next
    case filled
    have e: "poll_loop ps w q p u a bal r = PollExit True r"
      using filled by (auto simp: poll_loop.simps[of ps w q p u a])
    show ?thesis by (simp add: e)
  next
    case again
    have e: "poll_loop ps w q p u a bal r = poll_loop ps w q p u (a + 1) (Some b) r"
      using again by (auto simp: poll_loop.simps[of ps w q p u a])
    show ?thesis unfolding e using "1.IH"[OF again(1) again(2) again(3)] by blast
  next
    case last
    have e: "poll_loop ps w q p u a bal r = PollExit False r"
      using last by (auto simp: poll_loop.simps[of ps w q p u a])
    show ?thesis by (simp add: e)
  next
    case unbound
    have e: "poll_loop ps w q p u a bal r = PollRaised r"
      using unbound by (auto simp: poll_loop.simps[of ps w q p u a])
    show ?thesis by (simp add: e)
  next
    case handler
    then obtain b0 where b0: "bal = Some b0" by auto
    have e: "poll_loop ps w q p u a bal r = PollExit False ?rec"
      using handler(1,2,3) b0 by (auto simp: poll_loop.simps[of ps w q p u a])
    show ?thesis by (simp add: e reset_dca_def)
  qed
qed



lemma keeps_refl [simp]: "keeps r r"
  by (simp add: keeps_def)

lemma keeps_trans: "keeps a b \<Longrightarrow> keeps b c \<Longrightarrow> keeps a c"
  by (auto simp: keeps_def split: if_splits)

lemma poll_loop_keeps2: "keeps r (poll_runner (poll_loop ps w q p u a bal r))"
  using poll_loop_keeps[of ps w q p u a bal r] by (auto simp: keeps_def)

lemma buy_and_wait_keeps: "keeps r (snd (buy_and_wait P e r q p))"
proof -
  let ?r1 = "submit ''buy'' q p (r\<lparr>currency_var := Some ''BASE''\<rparr>)"
  let ?pl = "poll_loop (polls e) (wait_start e + 5) q p (usdt_per_trade P) 0 None ?r1"
  have a: "keeps r ?r1" by (simp add: keeps_def submit_def)
  have b: "keeps r (poll_runner ?pl)" using keeps_trans[OF a poll_loop_keeps2] .
  have c: "keeps r ((poll_runner ?pl)\<lparr>current_state := POSITION_OPEN\<rparr>)"
    using b by (auto simp: keeps_def)
  show ?thesis
    using a b c by (cases ?pl) (auto simp: buy_and_wait_def Let_def)
qed

lemma wtb_branch_keeps: "keeps r (snd (wtb_branch P e r cp))"
proof -
  have v: "keeps r ((reset_dca r)\<lparr>position_entry_price := p, position_quantity := cp,
              position_time := t, dca_total_invested := d, dca_weighted_avg_price := p,
              current_state := POSITION_OPEN\<rparr>)" for p t d
    by (simp add: keeps_def reset_dca_def)
  show ?thesis
    unfolding wtb_branch_def Let_def
    by (simp add: v buy_and_wait_keeps split: option.split)
qed

text \<open>What the position branch and the state machine leave of the safety system and of the
  trade counter, and the safety system's verdict on a history of zeros.\<close>

lemma timeout_sell_keeps:
  "safety (timeout_sell P e r cpz) = safety r
   \<and> trades_done (timeout_sell P e r cpz) = trades_done r"
  by (simp add: timeout_sell_def submit_def Let_def)

lemma dca_chain_keeps:
  "safety (snd (dca_chain P e r cpz l)) = safety r
   \<and> trades_done (snd (dca_chain P e r cpz l)) = trades_done r"
  by (simp add: dca_chain_def dca_buy_def submit_def Let_def)

lemma po_branch_keeps:
  "safety (snd (po_branch P e r cp)) = safety r
   \<and> trades_done (snd (po_branch P e r cp)) \<le> trades_done r + 1"
proof -
  have d: "safety (snd (case x of (Raised, r1) \<Rightarrow> (Raised, r1)
                         | (Normal, r1) \<Rightarrow> (Normal, timeout_sell P e r1 c))) = safety (snd x)
     \<and> trades_done (snd (case x of (Raised, r1) \<Rightarrow> (Raised, r1)
                         | (Normal, r1) \<Rightarrow> (Normal, timeout_sell P e r1 c))) = trades_done (snd x)"
    for x c
    by (cases x; cases "fst x") (auto simp: timeout_sell_keeps)
  show ?thesis
    unfolding po_branch_def Let_def
    by (simp add: d dca_chain_keeps submit_def)
qed

lemma state_machine_not_selling:
  assumes "current_state r \<noteq> WAITING_FOR_SELL"
  shows "safety (snd (state_machine P e r)) = safety r
    \<and> trades_done (snd (state_machine P e r)) \<le> trades_done r + 1"
proof (cases "current_state r = WAITING_TO_BUY")
  case True
  then show ?thesis
    using wtb_branch_keeps[of r P e "get_position_info (wallet_balance e)"]
    by (simp add: state_machine_def keeps_def)
next
  case False
  then show ?thesis
    using assms po_branch_keeps[of P e r "get_position_info (wallet_balance e)"]
    by (simp add: state_machine_def)
qed

lemma state_machine_waiting_to_buy:
  assumes "current_state r = WAITING_TO_BUY"
  shows "keeps r (snd (state_machine P e r))"
  using assms wtb_branch_keeps[of r P e "get_position_info (wallet_balance e)"]
  by (simp add: state_machine_def)

lemma win_rate_zeros: "win_rate (replicate k 0) = 0"
  by (simp add: win_rate_def)

lemma check_trade_zeros:
  assumes "zeros today k s" "0 < min_win_rate s" "0 \<le> max_daily_loss s"
  shows "fst (check_trade today 0 s) = (k < 4)
    \<and> zeros today (Suc k) (snd (check_trade today 0 s))
    \<and> min_win_rate (snd (check_trade today 0 s)) = min_win_rate s
    \<and> max_daily_loss (snd (check_trade today 0 s)) = max_daily_loss s"
proof -
  have r: "replicate k (0::real) @ [0] = replicate (Suc k) 0"
    by (simp add: replicate_append_same)
  show ?thesis
    using assms win_rate_zeros[of "Suc k"]
    by (auto simp: check_trade_def zeros_def Let_def r simp del: replicate_Suc)
qed


lemma same_day_at: "same_day today env \<Longrightarrow> n \<le> 4 \<Longrightarrow>
    guard_today (env n) = today \<and> check_today (env n) = today"
  by (simp add: same_day_def list_all_iff)

lemma loop_step:
  assumes inv: "loop_inv today n u r"
    and day: "guard_today e = today" "check_today e = today"
    and g: "fst (check_trade (guard_today e) 0 (safety r))"
    and nb: "fst (loop_iteration P e (r\<lparr>safety := snd (check_trade (guard_today e) 0 (safety r))\<rparr>))
               \<noteq> Break"
  shows "\<exists>u2. loop_inv today (Suc n) u2
           (snd (loop_iteration P e (r\<lparr>safety := snd (check_trade (guard_today e) 0 (safety r))\<rparr>)))"
proof -
  let ?s1 = "snd (check_trade today 0 (safety r))"
  let ?r1 = "r\<lparr>safety := ?s1\<rparr>"
  have z0: "zeros today (n + u) (safety r)" "0 < min_win_rate (safety r)"
    "0 \<le> max_daily_loss (safety r)" "u \<le> n" "n + u \<le> 4"
    using inv by (simp_all add: loop_inv_def)
  have st: "if u = 0 then current_state r = WAITING_TO_BUY
          else if u = 1 then current_state r = WAITING_TO_BUY \<or> current_state r = POSITION_OPEN
          else True"
    using inv by (simp add: loop_inv_def)
  note c1 = check_trade_zeros[OF z0(1) z0(2) z0(3)]
  have k4: "n + u < 4" using g c1 day by simp
  have z1: "zeros today (Suc (n + u)) ?s1" "0 < min_win_rate ?s1" "0 \<le> max_daily_loss ?s1"
    using c1 z0 by simp_all
  obtain ok t1 where cp: "can_place_order (tracker_now e) (failure_tracker ?r1) = (ok, t1)"
    by (cases "can_place_order (tracker_now e) (failure_tracker ?r1)")
  show ?thesis
  proof (cases ok)
    case False
    then have li: "loop_iteration P e ?r1 = (Continue, ?r1\<lparr>failure_tracker := t1\<rparr>)"
      using cp by (simp add: loop_iteration_def)
    have "loop_inv today (Suc n) u (?r1\<lparr>failure_tracker := t1\<rparr>)"
      using z1 z0 k4 st by (simp add: loop_inv_def)
    then show ?thesis using li day by auto
  next
    case True
    let ?s2 = "snd (check_trade today 0 ?s1)"
    let ?r2 = "r\<lparr>safety := ?s1, failure_tracker := t1, safety := ?s2\<rparr>"
    note c2 = check_trade_zeros[OF z1(1) z1(2) z1(3)]
    have li: "loop_iteration P e ?r1
        = (if \<not> fst (check_trade today 0 ?s1) then (Break, ?r2)
           else (Continue, snd (state_machine P e ?r2)))"
      using cp True day by (simp add: loop_iteration_def split: prod.splits)
    have pass: "fst (check_trade today 0 ?s1)"
      using nb li day by (auto split: if_splits)
    then have k3: "Suc (n + u) < 4" using c2 by simp
    have res: "snd (loop_iteration P e ?r1) = snd (state_machine P e ?r2)"
      using li pass by simp
    have z2: "zeros today (Suc (Suc (n + u))) (safety ?r2)" "0 < min_win_rate (safety ?r2)"
      "0 \<le> max_daily_loss (safety ?r2)"
      using c2 z1 by simp_all
    have u1: "u \<le> 1" using k3 z0(4) by simp
    have ns: "current_state ?r2 \<noteq> WAITING_FOR_SELL" using st u1 by (auto split: if_splits)
    have sf: "safety (snd (state_machine P e ?r2)) = safety ?r2"
      using state_machine_not_selling[OF ns] by blast
    have "loop_inv today (Suc n) (Suc u) (snd (state_machine P e ?r2))"
    proof (cases "u = 0")
      case True
      then have w: "current_state ?r2 = WAITING_TO_BUY" using st by simp
      have "current_state (snd (state_machine P e ?r2)) = WAITING_TO_BUY
          \<or> current_state (snd (state_machine P e ?r2)) = POSITION_OPEN"
        using state_machine_waiting_to_buy[OF w, of P e] w
        by (auto simp: keeps_def split: if_splits)
      then show ?thesis using z2 sf True k3 by (simp add: loop_inv_def)
    next
      case False
      then have "u = 1" using u1 by simp
      then show ?thesis using z2 sf k3 z0(4) by (simp add: loop_inv_def)
    qed
    then show ?thesis using res day by auto
  qed
qed

lemma scalp_loop_bound:
  "same_day today env \<Longrightarrow> loop_inv today n u r \<Longrightarrow>
     fst (scalp_loop P env n r) \<le> 4
     \<and> (max_trades P \<le> trades_done (snd (scalp_loop P env n r))
          \<or> trade_history (safety (snd (scalp_loop P env n r))) = replicate 5 0)"
proof (induction P env n r arbitrary: u rule: scalp_loop.induct)
  case (1 P env n r)
  let ?g = "check_trade (guard_today (env n)) 0 (safety r)"
  let ?r1 = "r\<lparr>safety := snd ?g\<rparr>"
  let ?it = "loop_iteration P (env n) ?r1"
  have z: "zeros today (n + u) (safety r)" "0 < min_win_rate (safety r)"
    "0 \<le> max_daily_loss (safety r)" "u \<le> n" "n + u \<le> 4"
    using "1.prems"(2) by (simp_all add: loop_inv_def)
  have n4: "n \<le> 4" using z(5) by simp
  note day = same_day_at[OF "1.prems"(1) n4]
  note c1 = check_trade_zeros[OF z(1) z(2) z(3)]
  have cap: "n < max_main_loop_iterations" using n4 by (simp add: max_main_loop_iterations_def)
  show ?case
  proof (cases "trades_done r < max_trades P")
    case False
    then have "scalp_loop P env n r = (n, r)"
      by (simp add: scalp_loop.simps[of P env n r])
    then show ?thesis using n4 False by simp
  next
    case lt: True
    show ?thesis
    proof (cases "fst ?g")
      case False
      then have e: "scalp_loop P env n r = (n, ?r1)"
        using lt by (simp add: scalp_loop.simps[of P env n r])
      have "n + u = 4" using False c1 day z(5) by simp
      then have "trade_history (safety ?r1) = replicate 5 0"
        using c1 day by (simp add: zeros_def)
      then show ?thesis using e n4 by simp
    next
      case g: True
      then have k4: "n + u < 4" using c1 day by simp
      then have n3: "Suc n \<le> 4" by simp
      have z1: "zeros today (Suc (n + u)) (snd ?g)" "0 < min_win_rate (snd ?g)"
        "0 \<le> max_daily_loss (snd ?g)"
        using c1 z day by simp_all
      show ?thesis
      proof (cases "fst ?it = Break")
        case b: True
        then have e: "scalp_loop P env n r = (Suc n, snd ?it)"
          using lt g cap by (simp add: scalp_loop.simps[of P env n r])
        obtain ok t1 where cp: "can_place_order (tracker_now (env n)) (failure_tracker ?r1) = (ok, t1)"
          by (cases "can_place_order (tracker_now (env n)) (failure_tracker ?r1)")
        have ok: "ok" using b cp by (auto simp: loop_iteration_def split: if_splits)
        have nf: "\<not> fst (check_trade today 0 (snd ?g))"
          using b cp ok day by (auto simp: loop_iteration_def split: if_splits prod.splits)
        have it: "safety (snd ?it) = snd (check_trade today 0 (snd ?g))"
          using b cp ok day by (auto simp: loop_iteration_def split: if_splits prod.splits)
        note c2 = check_trade_zeros[OF z1(1) z1(2) z1(3)]
        have "Suc (n + u) = 4" using nf c2 k4 by simp
        then have "trade_history (safety (snd ?it)) = replicate 5 0"
          using c2 it by (simp add: zeros_def)
        then show ?thesis using e n3 by simp
      next
        case nb: False
        then have e: "scalp_loop P env n r = scalp_loop P env (Suc n) (snd ?it)"
          using lt g cap by (simp add: scalp_loop.simps[of P env n r])
        obtain u2 where inv2: "loop_inv today (Suc n) u2 (snd ?it)"
          using loop_step[OF "1.prems"(2) _ _ g nb] day by blast
        have gc: "fst ?g \<and> n < max_main_loop_iterations" using g cap by simp
        show ?thesis
          using "1.IH"[OF lt gc nb "1.prems"(1) inv2] e by simp
      qed
    qed
  qed
qed

lemma init_runner_inv:
  "0 < p_min_win_rate P \<Longrightarrow> 0 \<le> p_max_daily_loss P \<Longrightarrow>
     loop_inv today 0 0 (init_runner P today trk)"
  by (simp add: loop_inv_def init_runner_def SafetySystem_init_def zeros_def)

lemma can_place_order_fresh:
  "\<not> circuit_open t \<Longrightarrow> consecutive_failures t = 0 \<Longrightarrow> can_place_order now t = (True, t)"
  by (simp add: can_place_order_def)

lemma iteration_fresh:
  assumes z: "zeros today k (safety r)" "0 < min_win_rate (safety r)"
      "0 \<le> max_daily_loss (safety r)"
    and k: "k < 3"
    and day: "guard_today (env n) = today \<and> check_today (env n) = today"
    and fr: "\<not> circuit_open (failure_tracker r)" "consecutive_failures (failure_tracker r) = 0"
    and lt: "trades_done r < max_trades P"
    and ns: "current_state r \<noteq> WAITING_FOR_SELL"
    and n5: "n < 5"
  shows "\<exists>r2. scalp_loop P env n r = scalp_loop P env (Suc n) r2
            \<and> zeros today (Suc (Suc k)) (safety r2) \<and> min_win_rate (safety r2) = min_win_rate (safety r)
            \<and> max_daily_loss (safety r2) = max_daily_loss (safety r)
            \<and> trades_done r2 \<le> trades_done r + 1
            \<and> (current_state r = WAITING_TO_BUY \<longrightarrow> keeps (r\<lparr>safety := safety r2\<rparr>) r2)"
proof -
  let ?e = "env n"
  let ?g = "check_trade today 0 (safety r)"
  let ?s1 = "snd ?g"
  note c1 = check_trade_zeros[OF z]
  have z1: "zeros today (Suc k) ?s1" "0 < min_win_rate ?s1" "0 \<le> max_daily_loss ?s1"
    using c1 z by simp_all
  note c2 = check_trade_zeros[OF z1]
  let ?s2 = "snd (check_trade today 0 ?s1)"
  let ?r2 = "r\<lparr>safety := ?s1, failure_tracker := failure_tracker r, safety := ?s2\<rparr>"
  have g: "fst ?g" using c1 k by simp
  have p2: "fst (check_trade today 0 ?s1)" using c2 k by simp
  have li: "loop_iteration P ?e (r\<lparr>safety := ?s1\<rparr>) = (Continue, snd (state_machine P ?e ?r2))"
    using can_place_order_fresh[OF fr, of "tracker_now ?e"] p2 day
    by (cases "check_trade today 0 ?s1") (auto simp: loop_iteration_def)
  have cap: "n < max_main_loop_iterations" using n5 by (simp add: max_main_loop_iterations_def)
  have e: "scalp_loop P env n r = scalp_loop P env (Suc n) (snd (state_machine P ?e ?r2))"
    using lt g cap li day by (simp add: scalp_loop.simps[of P env n r])
  have ns2: "current_state ?r2 \<noteq> WAITING_FOR_SELL" using ns by simp
  note sm = state_machine_not_selling[OF ns2, of P ?e]
  have w: "current_state r = WAITING_TO_BUY \<longrightarrow> keeps (r\<lparr>safety := ?s2\<rparr>) (snd (state_machine P ?e ?r2))"
  proof
    assume a: "current_state r = WAITING_TO_BUY"
    then have "current_state ?r2 = WAITING_TO_BUY" by simp
    from state_machine_waiting_to_buy[OF this, of P ?e]
    show "keeps (r\<lparr>safety := ?s2\<rparr>) (snd (state_machine P ?e ?r2))"
      by (simp add: keeps_def)
  qed
  show ?thesis
    apply (rule exI[of _ "snd (state_machine P ?e ?r2)"])
    using e sm c2 c1 z1 w by (simp add: zeros_def)
qed

lemma scalp_loop_two_iterations:
  assumes pos: "0 < p_min_win_rate P" "0 \<le> p_max_daily_loss P"
    and day: "same_day today env"
    and fr: "\<not> circuit_open trk" "consecutive_failures trk = 0"
    and mt: "0 < max_trades P"
  shows "fst (scalp_runner P today trk env) = 2"
proof -
  let ?r0 = "init_runner P today trk"
  have z0: "zeros today 0 (safety ?r0)" "0 < min_win_rate (safety ?r0)"
    "0 \<le> max_daily_loss (safety ?r0)"
    using pos by (simp_all add: init_runner_def SafetySystem_init_def zeros_def)
  have f0: "\<not> circuit_open (failure_tracker ?r0)" "consecutive_failures (failure_tracker ?r0) = 0"
    using fr by (simp_all add: init_runner_def)
  have t0: "trades_done ?r0 < max_trades P" "current_state ?r0 \<noteq> WAITING_FOR_SELL"
    "current_state ?r0 = WAITING_TO_BUY" "trades_done ?r0 = 0"
    using mt by (simp_all add: init_runner_def)
  have d0: "guard_today (env 0) = today \<and> check_today (env 0) = today"
    using same_day_at[OF day, of 0] by simp
  have d1: "guard_today (env (Suc 0)) = today \<and> check_today (env (Suc 0)) = today"
    using same_day_at[OF day, of 1] by simp
  have d2: "guard_today (env (Suc (Suc 0))) = today \<and> check_today (env (Suc (Suc 0))) = today"
    using same_day_at[OF day, of 2] by (simp add: numeral_2_eq_2)
  have "\<exists>r1. scalp_loop P env 0 ?r0 = scalp_loop P env (Suc 0) r1
      \<and> zeros today (Suc (Suc 0)) (safety r1)
      \<and> min_win_rate (safety r1) = min_win_rate (safety ?r0)
      \<and> max_daily_loss (safety r1) = max_daily_loss (safety ?r0)
      \<and> trades_done r1 \<le> trades_done ?r0 + 1
      \<and> (current_state ?r0 = WAITING_TO_BUY \<longrightarrow> keeps (?r0\<lparr>safety := safety r1\<rparr>) r1)"
    by (rule iteration_fresh[where env = env and n = 0 and k = 0, OF z0 _ d0 f0 t0(1) t0(2)])
      simp_all
  then obtain r1 where r1: "scalp_loop P env 0 ?r0 = scalp_loop P env (Suc 0) r1"
    "zeros today (Suc (Suc 0)) (safety r1)"
    "min_win_rate (safety r1) = min_win_rate (safety ?r0)"
    "max_daily_loss (safety r1) = max_daily_loss (safety ?r0)"
    "keeps (?r0\<lparr>safety := safety r1\<rparr>) r1"
    using t0(3) by blast
  have k1: "failure_tracker r1 = trk" "trades_done r1 = 0"
    "current_state r1 \<noteq> WAITING_FOR_SELL"
    using r1(5) by (auto simp: keeps_def init_runner_def split: if_splits)
  have z1: "zeros today (Suc (Suc 0)) (safety r1)" "0 < min_win_rate (safety r1)"
    "0 \<le> max_daily_loss (safety r1)" using r1 z0 by simp_all
  have f1: "\<not> circuit_open (failure_tracker r1)" "consecutive_failures (failure_tracker r1) = 0"
    using fr k1 by simp_all
  have t1: "trades_done r1 < max_trades P" using k1 mt by simp
  have "\<exists>r2. scalp_loop P env (Suc 0) r1 = scalp_loop P env (Suc (Suc 0)) r2
      \<and> zeros today (Suc (Suc (Suc (Suc 0)))) (safety r2)
      \<and> min_win_rate (safety r2) = min_win_rate (safety r1)
      \<and> max_daily_loss (safety r2) = max_daily_loss (safety r1)
      \<and> trades_done r2 \<le> trades_done r1 + 1
      \<and> (current_state r1 = WAITING_TO_BUY \<longrightarrow> keeps (r1\<lparr>safety := safety r2\<rparr>) r2)"
    by (rule iteration_fresh[where env = env and n = "Suc 0" and k = "Suc (Suc 0)",
          OF z1 _ d1 f1 t1 k1(3)]) simp_all
  then obtain r2 where r2: "scalp_loop P env (Suc 0) r1 = scalp_loop P env (Suc (Suc 0)) r2"
    "zeros today (Suc (Suc (Suc (Suc 0)))) (safety r2)"
    "min_win_rate (safety r2) = min_win_rate (safety r1)"
    "max_daily_loss (safety r2) = max_daily_loss (safety r1)"
    by blast
  have z2: "0 < min_win_rate (safety r2)" "0 \<le> max_daily_loss (safety r2)"
    using r2 z1 by simp_all
  have "\<not> fst (check_trade (guard_today (env (Suc (Suc 0)))) 0 (safety r2))"
    using check_trade_zeros[OF r2(2) z2] d2 by simp
  then have "fst (scalp_loop P env (Suc (Suc 0)) r2) = 2"
    by (simp add: scalp_loop.simps[of P env "Suc (Suc 0)" r2])
  then show ?thesis using r1(1) r2(1) by (simp add: scalp_runner_def)
qed

end
